theory Spec2Isabelle
  imports Complex_Main "HOL-Library.Word" "HOL-Library.Log_Nat"
begin

section \<open>Wide-colour context negotiation and colour helpers of WideColorCtx.cpp\<close>

text \<open>
  A shallow embedding of \<^verbatim>\<open>src/image-view/src/main/cpp/WideColorCtx.cpp\<close>:
  the two static mode tables, the configuration request built by
  \<^verbatim>\<open>CreateWideColorCtx(WIDECOLOR_MODE)\<close>, the negotiation and tear-down
  routines as state transformers over an explicit platform, and the fixed-point
  pixel transform and the gamma table builders.
\<close>

subsection \<open>Mode enumeration and the two static tables\<close>

text \<open>
  Modelled from the spec: the enumerations \<^verbatim>\<open>WIDECOLOR_MODE\<close>,
  \<^verbatim>\<open>DISPLAY_COLORSPACE\<close> and \<^verbatim>\<open>DISPLAY_FORMAT\<close> are declared in
  ImageViewEngine.h, which is not among the sources. The spec calls the mode an
  ordinal tag that keys two parallel tables; the enumerators below are exactly
  the names WideColorCtx.cpp uses, and the ordinal of a mode is the row of the
  tables that carries its colour space and bit depths.
\<close>

datatype WIDECOLOR_MODE =
    P3_PASSTHROUGH_R8G8B8A8_REV
  | P3_PASSTHROUGH_R10G10B10A2_REV
  | P3_PASSTHROUGH_FP16
  | P3_R8G8B8A8_REV
  | P3_R10G10B10A2_REV
  | P3_FP16
  | SRGBA_R8G8B8A8_REV

datatype DISPLAY_COLORSPACE = P3_PASSTHROUGH | P3 | SRGB | INVALID

datatype DISPLAY_FORMAT = R8G8B8A8_REV | R10G10B10_A2_REV | RGBA_FP16 | INVALID_FORMAT

fun mode_ordinal :: "WIDECOLOR_MODE \<Rightarrow> nat" where
  "mode_ordinal P3_PASSTHROUGH_R8G8B8A8_REV = 0"
| "mode_ordinal P3_PASSTHROUGH_R10G10B10A2_REV = 1"
| "mode_ordinal P3_PASSTHROUGH_FP16 = 2"
| "mode_ordinal P3_R8G8B8A8_REV = 3"
| "mode_ordinal P3_R10G10B10A2_REV = 4"
| "mode_ordinal P3_FP16 = 5"
| "mode_ordinal SRGBA_R8G8B8A8_REV = 6"

text \<open>
  An \<^verbatim>\<open>EGLint\<close> of an attribute list is either one of the platform's named
  tokens or a plain integer. The numeric values of the tokens belong to the
  platform headers, so the tokens stay symbolic.
\<close>

datatype EGLint =
    EGL_SURFACE_TYPE | EGL_WINDOW_BIT
  | EGL_RENDERABLE_TYPE | EGL_OPENGL_ES3_BIT
  | EGL_BLUE_SIZE | EGL_GREEN_SIZE | EGL_RED_SIZE | EGL_ALPHA_SIZE
  | EGL_COLOR_COMPONENT_TYPE_EXT
  | EGL_COLOR_COMPONENT_TYPE_FLOAT_EXT
  | EGL_COLOR_COMPONENT_TYPE_FIXED_EXT
  | EGL_NONE
  | EGL_CONTEXT_CLIENT_VERSION
  | EGL_GL_COLORSPACE_KHR
  | EGL_GL_COLORSPACE_DISPLAY_P3_PASSTHROUGH_EXT
  | EGL_GL_COLORSPACE_DISPLAY_P3_EXT
  | EGL_GL_COLORSPACE_SRGB_KHR
  | EGL_NATIVE_VISUAL_ID
  | EGL_WIDTH | EGL_HEIGHT
  | EGL_EXTENSIONS
  | Num int

text \<open>
  The members \<^verbatim>\<open>space_\<close>, \<^verbatim>\<open>fmt_\<close>, \<^verbatim>\<open>r_\<close>, ... of the two table
  structs end in an underscore, which an Isabelle name cannot; the fields carry
  the prefix of their struct instead.
\<close>

record APP_WIDECOLOR_MODE_CFG =
  app_space :: DISPLAY_COLORSPACE
  app_fmt :: DISPLAY_FORMAT

record GL_WIDECOLOR_MODE_CFG =
  gl_space :: EGLint
  gl_r :: int
  gl_g :: int
  gl_b :: int
  gl_a :: int

definition appWideColorCfg :: "APP_WIDECOLOR_MODE_CFG list" where
  "appWideColorCfg =
    [ \<lparr>app_space = P3_PASSTHROUGH, app_fmt = R8G8B8A8_REV\<rparr>,
      \<lparr>app_space = P3_PASSTHROUGH, app_fmt = R10G10B10_A2_REV\<rparr>,
      \<lparr>app_space = P3_PASSTHROUGH, app_fmt = RGBA_FP16\<rparr>,
      \<lparr>app_space = P3, app_fmt = R8G8B8A8_REV\<rparr>,
      \<lparr>app_space = P3, app_fmt = R10G10B10_A2_REV\<rparr>,
      \<lparr>app_space = P3, app_fmt = RGBA_FP16\<rparr>,
      \<lparr>app_space = SRGB, app_fmt = R8G8B8A8_REV\<rparr> ]"

definition glWideColorCfg :: "GL_WIDECOLOR_MODE_CFG list" where
  "glWideColorCfg =
    [ \<lparr>gl_space = EGL_GL_COLORSPACE_DISPLAY_P3_PASSTHROUGH_EXT, gl_r = 8, gl_g = 8, gl_b = 8, gl_a = 8\<rparr>,
      \<lparr>gl_space = EGL_GL_COLORSPACE_DISPLAY_P3_PASSTHROUGH_EXT, gl_r = 10, gl_g = 10, gl_b = 10, gl_a = 2\<rparr>,
      \<lparr>gl_space = EGL_GL_COLORSPACE_DISPLAY_P3_PASSTHROUGH_EXT, gl_r = 16, gl_g = 16, gl_b = 16, gl_a = 16\<rparr>,
      \<lparr>gl_space = EGL_GL_COLORSPACE_DISPLAY_P3_EXT, gl_r = 8, gl_g = 8, gl_b = 8, gl_a = 8\<rparr>,
      \<lparr>gl_space = EGL_GL_COLORSPACE_DISPLAY_P3_EXT, gl_r = 10, gl_g = 10, gl_b = 10, gl_a = 2\<rparr>,
      \<lparr>gl_space = EGL_GL_COLORSPACE_DISPLAY_P3_EXT, gl_r = 16, gl_g = 16, gl_b = 16, gl_a = 16\<rparr>,
      \<lparr>gl_space = EGL_GL_COLORSPACE_SRGB_KHR, gl_r = 8, gl_g = 8, gl_b = 8, gl_a = 8\<rparr> ]"

definition appCfg :: "WIDECOLOR_MODE \<Rightarrow> APP_WIDECOLOR_MODE_CFG" where
  "appCfg mode = appWideColorCfg ! mode_ordinal mode"

definition glCfg :: "WIDECOLOR_MODE \<Rightarrow> GL_WIDECOLOR_MODE_CFG" where
  "glCfg mode = glWideColorCfg ! mode_ordinal mode"

subsection \<open>The configuration request of CreateWideColorCtx(mode)\<close>

text \<open>
  Lines 349 to 366: the initial attribute vector, the component type pushed
  after the comparison with \<^verbatim>\<open>WIDECOLOR_MODE::P3_FP16\<close>, and the terminator.
\<close>

definition config_attributes :: "WIDECOLOR_MODE \<Rightarrow> EGLint list" where
  "config_attributes mode =
    (let attributes =
       [ EGL_SURFACE_TYPE, EGL_WINDOW_BIT,
         EGL_RENDERABLE_TYPE, EGL_OPENGL_ES3_BIT,
         EGL_BLUE_SIZE, Num (gl_b (glCfg mode)),
         EGL_GREEN_SIZE, Num (gl_g (glCfg mode)),
         EGL_RED_SIZE, Num (gl_r (glCfg mode)),
         EGL_ALPHA_SIZE, Num (gl_a (glCfg mode)) ];
       attributes =
         (if mode = P3_FP16
          then attributes @ [EGL_COLOR_COMPONENT_TYPE_EXT, EGL_COLOR_COMPONENT_TYPE_FLOAT_EXT]
          else attributes @ [EGL_COLOR_COMPONENT_TYPE_EXT, EGL_COLOR_COMPONENT_TYPE_FIXED_EXT])
     in attributes @ [EGL_NONE])"

subsection \<open>Machine numbers: float, double, int32_t and uint8_t\<close>

text \<open>
  A finite \<^verbatim>\<open>float\<close> or \<^verbatim>\<open>double\<close> is a dyadic number \<open>mant * 2 ^ expo\<close>.
  Every arithmetic operation computes the exact dyadic result and rounds it to
  the nearest representable number, ties to the even mantissa: 24 bits and a
  smallest quantum of \<open>2 ^ -149\<close> for \<^verbatim>\<open>float\<close>, 53 bits and \<open>2 ^ -1074\<close> for
  \<^verbatim>\<open>double\<close>. Infinities and NaN are not represented; a result beyond the
  largest finite number is kept as the rounded dyadic number.
\<close>

record flt =
  mant :: int
  expo :: int

definition flt_val :: "flt \<Rightarrow> rat" where
  "flt_val x = of_int (mant x) * (if 0 \<le> expo x then 2 ^ nat (expo x) else 1 / 2 ^ nat (- expo x))"

definition rne :: "int \<Rightarrow> nat \<Rightarrow> int" where
  "rne m k =
    (let q = m div 2 ^ k; r = m mod 2 ^ k
     in if 2 * r < 2 ^ k then q
        else if 2 ^ k < 2 * r then q + 1
        else if even q then q else q + 1)"

definition fp_round :: "nat \<Rightarrow> int \<Rightarrow> flt \<Rightarrow> flt" where
  "fp_round p qmin x =
    (let k = max (bitlen \<bar>mant x\<bar> - int p) (qmin - expo x)
     in if k \<le> 0 then x else \<lparr>mant = rne (mant x) (nat k), expo = expo x + k\<rparr>)"

definition f32_round :: "flt \<Rightarrow> flt" where
  "f32_round = fp_round 24 (- 149)"

definition f64_round :: "flt \<Rightarrow> flt" where
  "f64_round = fp_round 53 (- 1074)"

definition flt_mul_exact :: "flt \<Rightarrow> flt \<Rightarrow> flt" where
  "flt_mul_exact x y = \<lparr>mant = mant x * mant y, expo = expo x + expo y\<rparr>"

definition flt_add_exact :: "flt \<Rightarrow> flt \<Rightarrow> flt" where
  "flt_add_exact x y =
    (let e = min (expo x) (expo y)
     in \<lparr>mant = mant x * 2 ^ nat (expo x - e) + mant y * 2 ^ nat (expo y - e), expo = e\<rparr>)"

definition f32_mul :: "flt \<Rightarrow> flt \<Rightarrow> flt" where
  "f32_mul x y = f32_round (flt_mul_exact x y)"

definition f32_add :: "flt \<Rightarrow> flt \<Rightarrow> flt" where
  "f32_add x y = f32_round (flt_add_exact x y)"

definition f64_mul :: "flt \<Rightarrow> flt \<Rightarrow> flt" where
  "f64_mul x y = f64_round (flt_mul_exact x y)"

definition f64_add :: "flt \<Rightarrow> flt \<Rightarrow> flt" where
  "f64_add x y = f64_round (flt_add_exact x y)"

definition flt_neg :: "flt \<Rightarrow> flt" where
  "flt_neg x = \<lparr>mant = - mant x, expo = expo x\<rparr>"

definition f32_sub :: "flt \<Rightarrow> flt \<Rightarrow> flt" where
  "f32_sub x y = f32_round (flt_add_exact x (flt_neg y))"

definition f64_sub :: "flt \<Rightarrow> flt \<Rightarrow> flt" where
  "f64_sub x y = f64_round (flt_add_exact x (flt_neg y))"

text \<open>
  A quotient is not dyadic in general. The division computes the integer
  quotient of the mantissas with at least two bits more than the precision
  keeps, records in one further low bit whether a remainder was left, and rounds
  that number; the extra bits make the rounding the one of the exact quotient.
  A quotient by zero is an infinity or NaN, which is not represented, and comes
  out as zero; every divisor in the source is a nonzero constant.
\<close>

definition flt_div :: "nat \<Rightarrow> int \<Rightarrow> flt \<Rightarrow> flt \<Rightarrow> flt" where
  "flt_div p qmin x y =
    (if mant x = 0 \<or> mant y = 0 then \<lparr>mant = 0, expo = 0\<rparr>
     else
       let s = nat (max 0 (int p + 2 + bitlen \<bar>mant y\<bar> - bitlen \<bar>mant x\<bar>));
           n = \<bar>mant x\<bar> * 2 ^ s;
           q = n div \<bar>mant y\<bar>;
           sticky = (if n mod \<bar>mant y\<bar> = 0 then 0 else 1);
           sgn = (if (mant x < 0) = (mant y < 0) then 1 else - 1)
       in fp_round p qmin \<lparr>mant = sgn * (2 * q + sticky), expo = expo x - expo y - int s - 1\<rparr>)"

definition f32_div :: "flt \<Rightarrow> flt \<Rightarrow> flt" where
  "f32_div = flt_div 24 (- 149)"

definition f64_div :: "flt \<Rightarrow> flt \<Rightarrow> flt" where
  "f64_div = flt_div 53 (- 1074)"

definition flt_less :: "flt \<Rightarrow> flt \<Rightarrow> bool" where
  "flt_less x y =
    (let e = min (expo x) (expo y)
     in mant x * 2 ^ nat (expo x - e) < mant y * 2 ^ nat (expo y - e))"

definition flt_of_int :: "int \<Rightarrow> flt" where
  "flt_of_int n = \<lparr>mant = n, expo = 0\<rparr>"

definition f32_of_int :: "int \<Rightarrow> flt" where
  "f32_of_int n = f32_round (flt_of_int n)"

text \<open>The literals of the source, as the compiler reads them.\<close>

definition lit_0_5f :: flt where
  "lit_0_5f = \<lparr>mant = 1, expo = - 1\<rparr>"

definition lit_1_0f :: flt where
  "lit_1_0f = \<lparr>mant = 1, expo = 0\<rparr>"

definition lit_0_0031308f :: flt where
  "lit_0_0031308f = \<lparr>mant = 3361671, expo = - 30\<rparr>"

definition lit_0_04045 :: flt where
  "lit_0_04045 = \<lparr>mant = 2914729678834185, expo = - 56\<rparr>"

definition lit_12_92 :: flt where
  "lit_12_92 = \<lparr>mant = 7273313398203351, expo = - 49\<rparr>"

definition lit_1_055f :: flt where
  "lit_1_055f = \<lparr>mant = 8849981, expo = - 23\<rparr>"

definition lit_0_055f :: flt where
  "lit_0_055f = \<lparr>mant = 7381975, expo = - 27\<rparr>"

text \<open>
  A conversion to an integer type drops the fraction (towards zero). Outside the
  range of the target the conversion is undefined in C++; the model wraps there.
  Signed 32-bit arithmetic wraps as well, and \<^verbatim>\<open>>> 10\<close> on an \<^verbatim>\<open>int32_t\<close> is
  the arithmetic shift, which is the division by 1024 that rounds down.
\<close>

definition flt_trunc :: "flt \<Rightarrow> int" where
  "flt_trunc x =
    (if 0 \<le> expo x then mant x * 2 ^ nat (expo x)
     else if 0 \<le> mant x then mant x div 2 ^ nat (- expo x)
     else - ((- mant x) div 2 ^ nat (- expo x)))"

definition wrap32 :: "int \<Rightarrow> int" where
  "wrap32 x = (x + 2 ^ 31) mod 2 ^ 32 - 2 ^ 31"

definition to_int32 :: "flt \<Rightarrow> int" where
  "to_int32 x = wrap32 (flt_trunc x)"

definition to_uint32 :: "flt \<Rightarrow> nat" where
  "to_uint32 x = nat (flt_trunc x mod 2 ^ 32)"

definition add32 :: "int \<Rightarrow> int \<Rightarrow> int" where
  "add32 x y = wrap32 (x + y)"

definition mul32 :: "int \<Rightarrow> int \<Rightarrow> int" where
  "mul32 x y = wrap32 (x * y)"

definition shr32 :: "int \<Rightarrow> nat \<Rightarrow> int" where
  "shr32 x n = x div 2 ^ n"

type_synonym uint8_t = "8 word"

subsection \<open>TransformR8G8B8\<close>

text \<open>
  \<^verbatim>\<open>#define CLIP_COLOR(color, max) ((color > max) ? max : ((color > 0) ? color : 0))\<close>
\<close>

definition CLIP_COLOR :: "int \<Rightarrow> int \<Rightarrow> int" where
  "CLIP_COLOR color mx = (if color > mx then mx else (if color > 0 then color else 0))"

text \<open>
  A \<^verbatim>\<open>mathfu::mat3\<close> is read through its accessor \<^verbatim>\<open>transMatrix(i, j)\<close> only.
\<close>

type_synonym mat3 = "nat \<Rightarrow> nat \<Rightarrow> flt"

text \<open>
  Lines 97 to 105, for one coefficient:
  \<^verbatim>\<open>static_cast<int32_t>(transMatrix(i, j) * 1024 + 0.5f)\<close>, computed in \<^verbatim>\<open>float\<close>.
\<close>

definition fixed_coeff :: "flt \<Rightarrow> int" where
  "fixed_coeff c = to_int32 (f32_add (f32_mul c (f32_of_int 1024)) lit_0_5f)"

text \<open>Lines 107 to 110 for one row of the matrix.\<close>

definition fixed_row :: "int \<Rightarrow> int \<Rightarrow> int \<Rightarrow> uint8_t \<Rightarrow> uint8_t \<Rightarrow> uint8_t \<Rightarrow> int" where
  "fixed_row m0 m1 m2 srcR srcG srcB =
    shr32 (add32 (add32 (add32 (mul32 m0 (uint srcR)) (mul32 m1 (uint srcG)))
                        (mul32 m2 (uint srcB))) 512) 10"

text \<open>
  The three values handed to \<^verbatim>\<open>static_cast<uint8_t>\<close> at lines 111 to 113, and
  the three bytes stored through \<^verbatim>\<open>dst\<close>. The function returns \<^verbatim>\<open>true\<close> always.
\<close>

definition TransformR8G8B8_clipped ::
    "uint8_t \<Rightarrow> uint8_t \<Rightarrow> uint8_t \<Rightarrow> mat3 \<Rightarrow> int \<times> int \<times> int" where
  "TransformR8G8B8_clipped srcR srcG srcB transMatrix =
    (let m00 = fixed_coeff (transMatrix 0 0);
         m01 = fixed_coeff (transMatrix 0 1);
         m02 = fixed_coeff (transMatrix 0 2);
         m10 = fixed_coeff (transMatrix 1 0);
         m11 = fixed_coeff (transMatrix 1 1);
         m12 = fixed_coeff (transMatrix 1 2);
         m20 = fixed_coeff (transMatrix 2 0);
         m21 = fixed_coeff (transMatrix 2 1);
         m22 = fixed_coeff (transMatrix 2 2);
         r = fixed_row m00 m01 m02 srcR srcG srcB;
         g = fixed_row m10 m11 m12 srcR srcG srcB;
         b = fixed_row m20 m21 m22 srcR srcG srcB
     in (CLIP_COLOR r 255, CLIP_COLOR g 255, CLIP_COLOR b 255))"

definition TransformR8G8B8 ::
    "uint8_t \<Rightarrow> uint8_t \<Rightarrow> uint8_t \<Rightarrow> mat3 \<Rightarrow> uint8_t \<times> uint8_t \<times> uint8_t" where
  "TransformR8G8B8 srcR srcG srcB transMatrix =
    (case TransformR8G8B8_clipped srcR srcG srcB transMatrix of
       (r, g, b) \<Rightarrow> (word_of_int r, word_of_int g, word_of_int b))"

definition identity_mat3 :: mat3 where
  "identity_mat3 i j = (if i = j then lit_1_0f else \<lparr>mant = 0, expo = 0\<rparr>)"

subsection \<open>Assertions and the gamma table builders\<close>

text \<open>
  Modelled from the spec: the macro \<^verbatim>\<open>ASSERT\<close> comes from android_debug.h, which
  is not among the sources. The spec treats a failed assertion as fatal and not
  recoverable, so a failed assertion ends the run with a \<open>fatal\<close> value. The
  second fatal outcome is the construction of a \<^verbatim>\<open>std::string\<close> from the null
  pointer that \<^verbatim>\<open>eglQueryString\<close> returns on failure.
\<close>

datatype fatal = AssertionFailed string | NullExtensionString

text \<open>
  The C library's \<^verbatim>\<open>pow\<close> is an external collaborator: \<open>pow_approx\<close> stands for
  the value the library returns, in the given precision, where the C standard
  (Annex F) does not fix the result. The exact cases that can arise for finite
  arguments are fixed here as the standard fixes them: \<^verbatim>\<open>pow(x, 0)\<close> is 1 for
  every \<open>x\<close>, \<^verbatim>\<open>pow(1, y)\<close> is 1 for every \<open>y\<close>, and \<^verbatim>\<open>pow(0, y)\<close> is 0 for
  every \<open>y > 0\<close>. For \<open>y < 0\<close> the standard makes \<^verbatim>\<open>pow(0, y)\<close> an infinity, which
  is not represented; that case is left to \<open>pow_approx\<close> like the inexact ones.

  At line 138 both arguments of \<^verbatim>\<open>pow\<close> are of type \<^verbatim>\<open>float\<close>. Whether the
  unqualified call resolves to the \<^verbatim>\<open>float\<close> overload of \<^verbatim>\<open><cmath>\<close> or to
  \<^verbatim>\<open>double pow(double, double)\<close> depends on headers that are not among the
  sources, so \<open>pow_float_overload\<close> is a parameter as well. At line 163 the first
  argument is a \<^verbatim>\<open>double\<close>, and the call is the one on \<^verbatim>\<open>double\<close>.
\<close>

datatype precision = Single | Double

record libm =
  pow_approx :: "precision \<Rightarrow> flt \<Rightarrow> flt \<Rightarrow> flt"
  pow_float_overload :: bool

definition fp_round_to :: "precision \<Rightarrow> flt \<Rightarrow> flt" where
  "fp_round_to prec x = (case prec of Single \<Rightarrow> f32_round x | Double \<Rightarrow> f64_round x)"

definition c_pow :: "libm \<Rightarrow> precision \<Rightarrow> flt \<Rightarrow> flt \<Rightarrow> flt" where
  "c_pow lm prec x y =
    (if mant y = 0 then lit_1_0f
     else if \<not> flt_less x lit_1_0f \<and> \<not> flt_less lit_1_0f x then lit_1_0f
     else if mant x = 0 \<and> 0 < mant y then \<lparr>mant = 0, expo = 0\<rparr>
     else fp_round_to prec (pow_approx lm prec x y))"

text \<open>
  \<^verbatim>\<open>CLIP_COLOR(val, maxPixelf)\<close> on a \<^verbatim>\<open>double\<close> and a \<^verbatim>\<open>float\<close>: the same macro,
  with the comparisons and the result in \<^verbatim>\<open>double\<close>.
\<close>

definition CLIP_COLOR_dbl :: "flt \<Rightarrow> flt \<Rightarrow> flt" where
  "CLIP_COLOR_dbl color mx =
    (if flt_less mx color then mx
     else (if flt_less \<lparr>mant = 0, expo = 0\<rparr> color then color else \<lparr>mant = 0, expo = 0\<rparr>))"

text \<open>\<^verbatim>\<open>float maxPixelf = static_cast<float>(maxPixeli);\<close> with \<^verbatim>\<open>maxPixeli\<close> = 255.\<close>

definition maxPixelf :: flt where
  "maxPixelf = f32_of_int 255"

text \<open>
  The bodies of the four loops. Every operation rounds on its own, in the type
  C++ gives it: \<^verbatim>\<open>idx * 12.92 + .5f\<close> and \<^verbatim>\<open>idx / 12.92 + .5f\<close> in \<^verbatim>\<open>double\<close>;
  \<^verbatim>\<open>idx / maxPixelf\<close> and \<^verbatim>\<open>(idx / maxPixelf + 0.055f) / 1.055f\<close> in \<^verbatim>\<open>float\<close>;
  \<^verbatim>\<open>1.055f * pow(...) - 0.055f\<close> in the type \<^verbatim>\<open>pow\<close> returns; and
  \<^verbatim>\<open>val * maxPixeli + 0.5f\<close> in \<^verbatim>\<open>double\<close>.
\<close>

definition encode_linear_sample :: "nat \<Rightarrow> uint8_t" where
  "encode_linear_sample idx =
    (let val = f64_add (f64_mul (flt_of_int (int idx)) lit_12_92) lit_0_5f
     in word_of_int (flt_trunc val))"

definition encode_power_sample :: "libm \<Rightarrow> flt \<Rightarrow> nat \<Rightarrow> uint8_t" where
  "encode_power_sample lm gamma idx =
    (let val =
           (if pow_float_overload lm
            then f32_sub (f32_mul lit_1_055f
                   (c_pow lm Single (f32_div (f32_of_int (int idx)) maxPixelf) gamma)) lit_0_055f
            else f64_sub (f64_mul lit_1_055f
                   (c_pow lm Double (f32_div (f32_of_int (int idx)) maxPixelf) gamma)) lit_0_055f);
         val = f64_add (f64_mul val (flt_of_int 255)) lit_0_5f
     in word_of_int (flt_trunc (CLIP_COLOR_dbl val maxPixelf)))"

definition decode_linear_sample :: "nat \<Rightarrow> uint8_t" where
  "decode_linear_sample idx =
    (let val = f64_add (f64_div (flt_of_int (int idx)) lit_12_92) lit_0_5f
     in word_of_int (flt_trunc val))"

definition decode_power_sample :: "libm \<Rightarrow> flt \<Rightarrow> nat \<Rightarrow> uint8_t" where
  "decode_power_sample lm gamma idx =
    (let val = f32_div (f32_add (f32_div (f32_of_int (int idx)) maxPixelf) lit_0_055f) lit_1_055f;
         val = f64_add (f64_mul (c_pow lm Double val gamma) (flt_of_int 255)) lit_0_5f
     in word_of_int (flt_trunc (CLIP_COLOR_dbl val maxPixelf)))"

text \<open>
  \<^verbatim>\<open>for (uint32_t idx = first; idx < bound; idx++) table.push_back(sample(idx));\<close>
  The second loop of each builder runs while \<^verbatim>\<open>idx <= maxPixeli\<close>, which is
  \<open>idx < maxPixeli + 1\<close>.
\<close>

function push_samples :: "(nat \<Rightarrow> uint8_t) \<Rightarrow> nat \<Rightarrow> nat \<Rightarrow> uint8_t list \<Rightarrow> uint8_t list" where
  "push_samples sample idx bound table =
    (if idx < bound then push_samples sample (idx + 1) bound (table @ [sample idx]) else table)"
  by pat_completeness auto
termination
  by (relation "measure (\<lambda>(sample, idx, bound, table). bound - idx)") auto

declare push_samples.simps [simp del]

definition CreateGammaEncodeTable ::
    "libm \<Rightarrow> flt \<Rightarrow> uint8_t list \<Rightarrow> fatal + uint8_t list" where
  "CreateGammaEncodeTable lm gamma table =
    (if \<not> flt_less gamma lit_1_0f then Inl (AssertionFailed ''Wrong Gamma (%f) for encoding'')
     else
       let maxPixeli = (255 :: nat);
           maxLinearVal = to_uint32 (f32_mul lit_0_0031308f (f32_of_int (int maxPixeli)));
           table = take 0 table;
           table = push_samples encode_linear_sample 0 maxLinearVal table;
           table = push_samples (encode_power_sample lm gamma) maxLinearVal (maxPixeli + 1) table
       in Inr table)"

definition CreateGammaDecodeTable ::
    "libm \<Rightarrow> flt \<Rightarrow> uint8_t list \<Rightarrow> fatal + uint8_t list" where
  "CreateGammaDecodeTable lm gamma table =
    (if \<not> flt_less lit_1_0f gamma then Inl (AssertionFailed ''Wrong Gamma(%f) for decoding'')
     else
       let maxPixeli = (255 :: nat);
           maxLinearVal = to_uint32 (f64_mul lit_0_04045 (flt_of_int (int maxPixeli)));
           table = push_samples decode_linear_sample 0 maxLinearVal table;
           table = push_samples (decode_power_sample lm gamma) maxLinearVal (maxPixeli + 1) table
       in Inr table)"

subsection \<open>The engine state and the platform\<close>

datatype EGLDisplay = EGL_NO_DISPLAY | Display nat

datatype EGLContext = EGL_NO_CONTEXT | Context nat

datatype EGLSurface = EGL_NO_SURFACE | Surface nat

type_synonym EGLConfig = nat

text \<open>
  The members of \<^verbatim>\<open>ImageViewEngine\<close> that WideColorCtx.cpp reads and writes
  (\<^verbatim>\<open>display_\<close>, \<^verbatim>\<open>surface_\<close>, \<^verbatim>\<open>eglContext_\<close>, \<^verbatim>\<open>dispColorSpace_\<close>,
  \<^verbatim>\<open>dispFormat_\<close>, \<^verbatim>\<open>renderTargetWidth_\<close>, \<^verbatim>\<open>renderTargetHeight_\<close>), without
  the trailing underscore. The window \<^verbatim>\<open>app_->window\<close> never changes and is left
  out of the calls that take it.
\<close>

record ImageViewEngine =
  display :: EGLDisplay
  surface :: EGLSurface
  eglContext :: EGLContext
  dispColorSpace :: DISPLAY_COLORSPACE
  dispFormat :: DISPLAY_FORMAT
  renderTargetWidth :: int
  renderTargetHeight :: int

text \<open>
  Modelled from the spec: the constructor of \<^verbatim>\<open>ImageViewEngine\<close> is not among the
  sources. The spec's uninitialized state holds the sentinel in every handle and
  \<open>INVALID\<close> in the colour space and the format; it names no value for the size of
  the render target, which is 0 here.
\<close>

definition uninitialized_engine :: ImageViewEngine where
  "uninitialized_engine =
    \<lparr>display = EGL_NO_DISPLAY, surface = EGL_NO_SURFACE, eglContext = EGL_NO_CONTEXT,
     dispColorSpace = INVALID, dispFormat = INVALID_FORMAT,
     renderTargetWidth = 0, renderTargetHeight = 0\<rparr>"

text \<open>
  The platform is an external collaborator. The model keeps the history of the
  calls the engine has issued, in order, and takes the platform's answers as
  parameters that may depend on that history. A creation call is recorded with
  the handle it returned.
\<close>

datatype egl_call =
    EglGetDisplay
  | EglInitialize EGLDisplay
  | EglQueryString EGLDisplay EGLint
  | EglChooseConfig EGLDisplay "EGLint list" int
  | EglCreateContext EGLDisplay EGLConfig EGLContext "EGLint list" EGLContext
  | EglGetConfigAttrib EGLDisplay EGLConfig EGLint
  | ANativeWindow_setBuffersGeometry int int int
  | EglCreateWindowSurface EGLDisplay EGLConfig "EGLint list" EGLSurface
  | EglMakeCurrent EGLDisplay EGLSurface EGLSurface EGLContext
  | EglQuerySurface EGLDisplay EGLSurface EGLint
  | EglDestroyContext EGLDisplay EGLContext
  | EglDestroySurface EGLDisplay EGLSurface
  | EglTerminate EGLDisplay

text \<open>
  The answers of the platform, the C library, and the two gamma arguments
  \<^verbatim>\<open>1.0f/DEFAULT_P3_IMAGE_GAMMA\<close> and \<^verbatim>\<open>DEFAULT_DISPLAY_GAMMA\<close>, whose macros are
  defined in a header that is not among the sources. \<open>ansChooseConfig\<close> gives the
  returned status, the configuration count written back and the configuration;
  \<open>ansQuerySurface\<close> gives \<open>None\<close> when the query fails and writes nothing.
\<close>

record platform =
  ansGetDisplay :: "egl_call list \<Rightarrow> EGLDisplay"
  ansQueryString :: "egl_call list \<Rightarrow> EGLDisplay \<Rightarrow> string option"
  ansChooseConfig :: "egl_call list \<Rightarrow> EGLDisplay \<Rightarrow> EGLint list \<Rightarrow> bool \<times> int \<times> EGLConfig"
  ansCreateContext :: "egl_call list \<Rightarrow> EGLDisplay \<Rightarrow> EGLConfig \<Rightarrow> EGLint list \<Rightarrow> EGLContext"
  ansGetConfigAttrib :: "egl_call list \<Rightarrow> EGLDisplay \<Rightarrow> EGLConfig \<Rightarrow> EGLint \<Rightarrow> int"
  ansSetBuffersGeometry :: "egl_call list \<Rightarrow> int \<Rightarrow> int"
  ansCreateWindowSurface :: "egl_call list \<Rightarrow> EGLDisplay \<Rightarrow> EGLConfig \<Rightarrow> EGLint list \<Rightarrow> EGLSurface"
  ansMakeCurrent :: "egl_call list \<Rightarrow> EGLDisplay \<Rightarrow> EGLSurface \<Rightarrow> EGLContext \<Rightarrow> bool"
  ansQuerySurface :: "egl_call list \<Rightarrow> EGLDisplay \<Rightarrow> EGLSurface \<Rightarrow> EGLint \<Rightarrow> int option"
  decodeGamma :: flt
  encodeGamma :: flt
  mathlib :: libm

type_synonym engine_state = "ImageViewEngine \<times> egl_call list"

text \<open>The contexts and surfaces that the recorded calls created and did not destroy.\<close>

fun context_effect :: "EGLContext list \<Rightarrow> egl_call \<Rightarrow> EGLContext list" where
  "context_effect live (EglCreateContext dpy config share attrs ctx) =
     (if ctx = EGL_NO_CONTEXT then live else ctx # live)"
| "context_effect live (EglDestroyContext dpy ctx) = remove1 ctx live"
| "context_effect live other = live"

fun surface_effect :: "EGLSurface list \<Rightarrow> egl_call \<Rightarrow> EGLSurface list" where
  "surface_effect live (EglCreateWindowSurface dpy config attrs surf) =
     (if surf = EGL_NO_SURFACE then live else surf # live)"
| "surface_effect live (EglDestroySurface dpy surf) = remove1 surf live"
| "surface_effect live other = live"

definition live_contexts :: "egl_call list \<Rightarrow> EGLContext list" where
  "live_contexts h = foldl context_effect [] h"

definition live_surfaces :: "egl_call list \<Rightarrow> EGLSurface list" where
  "live_surfaces h = foldl surface_effect [] h"

subsection \<open>CreateWideColorCtx(WIDECOLOR_MODE)\<close>

text \<open>
  Lines 195 to 347 compute colour-space matrices, log them, build the two gamma
  tables and log the transform of every 8-bit colour. They touch local variables
  and the log only; what the rest of the function can observe of them is whether
  the assertions of the two table builders pass. Both tables are built from empty
  vectors. Lines 349 to 422 follow statement by statement.
\<close>

definition CreateWideColorCtx_mode ::
    "platform \<Rightarrow> WIDECOLOR_MODE \<Rightarrow> engine_state \<Rightarrow> fatal + (bool \<times> engine_state)" where
  "CreateWideColorCtx_mode p mode s =
    (case s of (e, h) \<Rightarrow>
     case CreateGammaDecodeTable (mathlib p) (decodeGamma p) [] of
       Inl f \<Rightarrow> Inl f
     | Inr gammaTableDec \<Rightarrow>
     case CreateGammaEncodeTable (mathlib p) (encodeGamma p) [] of
       Inl f \<Rightarrow> Inl f
     | Inr gammaTableEnc \<Rightarrow>
     let attributes = config_attributes mode in
     case ansChooseConfig p h (display e) attributes of (status, cfgCount, config) \<Rightarrow>
     let h = h @ [EglChooseConfig (display e) attributes 1] in
     if \<not> status \<or> cfgCount \<noteq> 1 then Inr (False, e, h)
     else
       let attributes = [EGL_CONTEXT_CLIENT_VERSION, Num 3, EGL_NONE];
           ctx = ansCreateContext p h (display e) config attributes;
           h = h @ [EglCreateContext (display e) config EGL_NO_CONTEXT attributes ctx];
           e = e\<lparr>eglContext := ctx\<rparr>
       in
       if eglContext e = EGL_NO_CONTEXT then Inr (False, e, h)
       else
         let format = ansGetConfigAttrib p h (display e) config EGL_NATIVE_VISUAL_ID;
             h = h @ [EglGetConfigAttrib (display e) config EGL_NATIVE_VISUAL_ID];
             res = ansSetBuffersGeometry p h format;
             h = h @ [ANativeWindow_setBuffersGeometry 0 0 format]
         in
         if res < 0 then
           let h = h @ [EglDestroyContext (display e) (eglContext e)];
               e = e\<lparr>eglContext := EGL_NO_CONTEXT\<rparr>
           in Inr (False, e, h)
         else
           let attributes = [EGL_GL_COLORSPACE_KHR, gl_space (glCfg mode), EGL_NONE];
               surf = ansCreateWindowSurface p h (display e) config attributes;
               h = h @ [EglCreateWindowSurface (display e) config attributes surf];
               e = e\<lparr>surface := surf\<rparr>
           in
           if surface e = EGL_NO_SURFACE then
             let h = h @ [EglDestroyContext (display e) (eglContext e)];
                 e = e\<lparr>eglContext := EGL_NO_CONTEXT\<rparr>
             in Inr (False, e, h)
           else
             let status = ansMakeCurrent p h (display e) (surface e) (eglContext e);
                 h = h @ [EglMakeCurrent (display e) (surface e) (surface e) (eglContext e)]
             in
             if \<not> status then Inl (AssertionFailed ''eglMakeCurrent() Failed'')
             else
               let e = e\<lparr>dispColorSpace := app_space (appCfg mode)\<rparr>;
                   e = e\<lparr>dispFormat := app_fmt (appCfg mode)\<rparr>;
                   width = ansQuerySurface p h (display e) (surface e) EGL_WIDTH;
                   h = h @ [EglQuerySurface (display e) (surface e) EGL_WIDTH];
                   e = (case width of None \<Rightarrow> e | Some v \<Rightarrow> e\<lparr>renderTargetWidth := v\<rparr>);
                   height = ansQuerySurface p h (display e) (surface e) EGL_HEIGHT;
                   h = h @ [EglQuerySurface (display e) (surface e) EGL_HEIGHT];
                   e = (case height of None \<Rightarrow> e | Some v \<Rightarrow> e\<lparr>renderTargetHeight := v\<rparr>)
               in Inr (True, e, h))"

text \<open>
  The test of line 373 on the platform's answer: the call reported success and
  exactly one configuration.
\<close>

definition config_matches :: "platform \<Rightarrow> WIDECOLOR_MODE \<Rightarrow> engine_state \<Rightarrow> bool" where
  "config_matches p mode s =
    (case s of (e, h) \<Rightarrow>
     case ansChooseConfig p h (display e) (config_attributes mode) of
       (status, cfgCount, config) \<Rightarrow> status \<and> cfgCount = 1)"

subsection \<open>CheckRequiredEGLExt and CreateWideColorCtx(void)\<close>

text \<open>\<^verbatim>\<open>std::string::find\<close>: the first position of \<open>ext\<close> in the string, \<open>None\<close> for \<^verbatim>\<open>npos\<close>.\<close>

fun string_find :: "string \<Rightarrow> string \<Rightarrow> nat option" where
  "string_find [] ext = (if ext = [] then Some 0 else None)"
| "string_find (c # cs) ext =
     (if take (length ext) (c # cs) = ext then Some 0
      else map_option Suc (string_find cs ext))"

fun all_found :: "string \<Rightarrow> string list \<Rightarrow> bool" where
  "all_found eglExt [] = True"
| "all_found eglExt (ext # exts) =
     (if string_find eglExt ext = None then False else all_found eglExt exts)"

definition CheckRequiredEGLExt ::
    "platform \<Rightarrow> egl_call list \<Rightarrow> EGLDisplay \<Rightarrow> string list \<Rightarrow> fatal + (bool \<times> egl_call list)" where
  "CheckRequiredEGLExt p h disp exts =
    (case ansQueryString p h disp of
       None \<Rightarrow> Inl NullExtensionString
     | Some eglExt \<Rightarrow> Inr (all_found eglExt exts, h @ [EglQueryString disp EGL_EXTENSIONS]))"

text \<open>
  \<^verbatim>\<open>for (auto mode : modes) { if (CreateWideColorCtx(mode)) return true; } return false;\<close>
\<close>

fun try_modes :: "platform \<Rightarrow> WIDECOLOR_MODE list \<Rightarrow> engine_state \<Rightarrow> fatal + (bool \<times> engine_state)" where
  "try_modes p [] s = Inr (False, s)"
| "try_modes p (mode # modes) s =
     (case CreateWideColorCtx_mode p mode s of
        Inl f \<Rightarrow> Inl f
      | Inr (ok, s') \<Rightarrow> if ok then Inr (True, s') else try_modes p modes s')"

definition passthruExt :: "string list" where
  "passthruExt = [''EGL_KHR_gl_colorspace'', ''GL_EXT_gl_colorspace_display_p3_passthrough'']"

definition p3Exts :: "string list" where
  "p3Exts = [''EGL_KHR_gl_colorspace'', ''EGL_EXT_gl_colorspace_display_p3'']"

definition CreateWideColorCtx :: "platform \<Rightarrow> engine_state \<Rightarrow> fatal + (bool \<times> engine_state)" where
  "CreateWideColorCtx p s =
    (case s of (e, h) \<Rightarrow>
     let e = e\<lparr>display := ansGetDisplay p h\<rparr>;
         h = h @ [EglGetDisplay];
         h = h @ [EglInitialize (display e)];
         modes = [P3_R8G8B8A8_REV, P3_R10G10B10A2_REV, P3_FP16, SRGBA_R8G8B8A8_REV]
     in
     case CheckRequiredEGLExt p h (display e) passthruExt of
       Inl f \<Rightarrow> Inl f
     | Inr (True, h) \<Rightarrow>
         let modes = modes[0 := P3_PASSTHROUGH_R8G8B8A8_REV];
             modes = modes[1 := P3_PASSTHROUGH_R10G10B10A2_REV];
             modes = modes[2 := P3_PASSTHROUGH_FP16]
         in try_modes p modes (e, h)
     | Inr (False, h) \<Rightarrow>
         (case CheckRequiredEGLExt p h (display e) p3Exts of
            Inl f \<Rightarrow> Inl f
          | Inr (False, h) \<Rightarrow> CreateWideColorCtx_mode p SRGBA_R8G8B8A8_REV (e, h)
          | Inr (True, h) \<Rightarrow> try_modes p modes (e, h)))"

subsection \<open>DestroyWideColorCtx\<close>

definition DestroyWideColorCtx :: "engine_state \<Rightarrow> engine_state" where
  "DestroyWideColorCtx s =
    (case s of (e, h) \<Rightarrow>
     if display e = EGL_NO_DISPLAY then (e, h)
     else
       let h = h @ [EglMakeCurrent (display e) EGL_NO_SURFACE EGL_NO_SURFACE EGL_NO_CONTEXT];
           h = (if eglContext e \<noteq> EGL_NO_CONTEXT
                then h @ [EglDestroyContext (display e) (eglContext e)] else h);
           h = (if surface e \<noteq> EGL_NO_SURFACE
                then h @ [EglDestroySurface (display e) (surface e)] else h);
           h = h @ [EglTerminate (display e)];
           e = e\<lparr>display := EGL_NO_DISPLAY\<rparr>;
           e = e\<lparr>eglContext := EGL_NO_CONTEXT\<rparr>;
           e = e\<lparr>surface := EGL_NO_SURFACE\<rparr>;
           e = e\<lparr>dispColorSpace := INVALID\<rparr>;
           e = e\<lparr>dispFormat := INVALID_FORMAT\<rparr>
       in (e, h))"

subsection \<open>The negotiation in the words of the spec\<close>

text \<open>
  Section 4.3 of the spec describes the capability check as a substring
  containment check for every required token, and section 4.4 describes the
  argument-less entry point as three steps: \<open>OpenDisplay\<close>, then
  \<open>SelectFallbackChain\<close>, which picks the passthrough list, the standard
  wide-gamut list or the single-element legacy list, then the iteration of the
  single attempt over the chosen list with an explicit legacy retry after a
  wide-gamut list has failed. The next definitions follow those words and use
  none of \<open>string_find\<close>, \<open>CheckRequiredEGLExt\<close> and \<open>try_modes\<close>; they are
  compared with \<open>CreateWideColorCtx\<close> below.
\<close>

definition has_token :: "string \<Rightarrow> string \<Rightarrow> bool" where
  "has_token ext tok =
    list_ex (\<lambda>i. take (length tok) (drop i ext) = tok) [0..<Suc (length ext)]"

definition HasExtensions :: "string \<Rightarrow> string list \<Rightarrow> bool" where
  "HasExtensions ext required = list_all (has_token ext) required"

definition passthrough_chain :: "WIDECOLOR_MODE list" where
  "passthrough_chain =
    [P3_PASSTHROUGH_R8G8B8A8_REV, P3_PASSTHROUGH_R10G10B10A2_REV, P3_PASSTHROUGH_FP16]"

definition standard_chain :: "WIDECOLOR_MODE list" where
  "standard_chain = [P3_R8G8B8A8_REV, P3_R10G10B10A2_REV, P3_FP16]"

definition legacy_chain :: "WIDECOLOR_MODE list" where
  "legacy_chain = [SRGBA_R8G8B8A8_REV]"

text \<open>
  The modes tried for a selected chain, in order: the chain itself and, after a
  wide-gamut chain, the legacy mode.
\<close>

definition attempted :: "WIDECOLOR_MODE list \<Rightarrow> WIDECOLOR_MODE list" where
  "attempted chain = (if chain = legacy_chain then chain else chain @ [SRGBA_R8G8B8A8_REV])"

definition OpenDisplay :: "platform \<Rightarrow> engine_state \<Rightarrow> engine_state" where
  "OpenDisplay p s =
    (case s of (e, h) \<Rightarrow>
       (e\<lparr>display := ansGetDisplay p h\<rparr>,
        h @ [EglGetDisplay, EglInitialize (ansGetDisplay p h)]))"

text \<open>
  Each check queries the extension string once; the query for the standard set
  is issued only after the passthrough set was found incomplete.
\<close>

definition SelectFallbackChain ::
    "platform \<Rightarrow> engine_state \<Rightarrow> fatal + (WIDECOLOR_MODE list \<times> engine_state)" where
  "SelectFallbackChain p s =
    (case s of (e, h) \<Rightarrow>
     case ansQueryString p h (display e) of
       None \<Rightarrow> Inl NullExtensionString
     | Some ext \<Rightarrow>
         let h1 = h @ [EglQueryString (display e) EGL_EXTENSIONS] in
         if HasExtensions ext passthruExt then Inr (passthrough_chain, (e, h1))
         else
           (case ansQueryString p h1 (display e) of
              None \<Rightarrow> Inl NullExtensionString
            | Some ext \<Rightarrow>
                let h2 = h1 @ [EglQueryString (display e) EGL_EXTENSIONS] in
                if HasExtensions ext p3Exts then Inr (standard_chain, (e, h2))
                else Inr (legacy_chain, (e, h2))))"

text \<open>
  Every mode of the list fails, each attempt starting in the state the attempt
  before it has left: \<open>all_fail p modes s s'\<close> holds when the attempts on \<open>modes\<close>,
  in order from \<open>s\<close>, all return \<open>false\<close> and end in \<open>s'\<close>.
\<close>

fun all_fail :: "platform \<Rightarrow> WIDECOLOR_MODE list \<Rightarrow> engine_state \<Rightarrow> engine_state \<Rightarrow> bool" where
  "all_fail p [] s s' = (s' = s)"
| "all_fail p (mode # modes) s s' =
     (case CreateWideColorCtx_mode p mode s of
        Inl f \<Rightarrow> False
      | Inr (ok, s1) \<Rightarrow> \<not> ok \<and> all_fail p modes s1 s')"

subsection \<open>Reachable states and the invariant of the handles\<close>

text \<open>
  The states an engine reaches from its constructed state when a creation entry
  point is only entered while the engine holds neither a context nor a surface
  (at the start, after a failed creation, or after \<open>DestroyWideColorCtx\<close>).
\<close>

inductive reachable :: "platform \<Rightarrow> engine_state \<Rightarrow> bool" for p :: platform where
  constructed: "reachable p (uninitialized_engine, [])"
| best_effort:
    "reachable p (e, h) \<Longrightarrow> eglContext e = EGL_NO_CONTEXT \<Longrightarrow> surface e = EGL_NO_SURFACE \<Longrightarrow>
     CreateWideColorCtx p (e, h) = Inr (ok, s') \<Longrightarrow> reachable p s'"
| single_mode:
    "reachable p (e, h) \<Longrightarrow> eglContext e = EGL_NO_CONTEXT \<Longrightarrow> surface e = EGL_NO_SURFACE \<Longrightarrow>
     CreateWideColorCtx_mode p mode (e, h) = Inr (ok, s') \<Longrightarrow> reachable p s'"
| destroyed: "reachable p s \<Longrightarrow> reachable p (DestroyWideColorCtx s)"

text \<open>
  The invariant of the spec's data model: the context and the surface are both
  at their sentinels or both valid, and the colour space and the format are
  \<open>INVALID\<close> unless the engine holds a surface.
\<close>

definition handles_paired :: "ImageViewEngine \<Rightarrow> bool" where
  "handles_paired e =
    (if eglContext e = EGL_NO_CONTEXT then surface e = EGL_NO_SURFACE
     else surface e \<noteq> EGL_NO_SURFACE)"

definition format_needs_surface :: "ImageViewEngine \<Rightarrow> bool" where
  "format_needs_surface e =
    (if surface e = EGL_NO_SURFACE
     then dispColorSpace e = INVALID \<and> dispFormat e = INVALID_FORMAT else True)"

subsection \<open>Concrete platforms\<close>

text \<open>
  Platforms for concrete runs. \<open>willing_platform\<close> grants every request and lists
  the standard Display-P3 extensions; the others differ from it in one answer.
  The gamma arguments are the \<^verbatim>\<open>float\<close> values nearest to 2.2 and to 1/2.2.
  The negotiation never reads the gamma tables, so the library of these platforms
  is a coarse stand-in: outside the exact cases its \<^verbatim>\<open>pow\<close> returns the first
  argument.
\<close>

definition coarse_libm :: libm where
  "coarse_libm = \<lparr>pow_approx = (\<lambda>prec x y. x), pow_float_overload = True\<rparr>"

definition lit_2_2f :: flt where
  "lit_2_2f = \<lparr>mant = 9227469, expo = - 22\<rparr>"

definition lit_inv_2_2f :: flt where
  "lit_inv_2_2f = \<lparr>mant = 15252015, expo = - 25\<rparr>"

definition willing_platform :: platform where
  "willing_platform =
    \<lparr>ansGetDisplay = (\<lambda>h. Display 1),
     ansQueryString = (\<lambda>h dpy. Some ''EGL_KHR_gl_colorspace EGL_EXT_gl_colorspace_display_p3''),
     ansChooseConfig = (\<lambda>h dpy attrs. (True, 1, 7)),
     ansCreateContext = (\<lambda>h dpy config attrs. Context 1),
     ansGetConfigAttrib = (\<lambda>h dpy config attr. 1),
     ansSetBuffersGeometry = (\<lambda>h format. 0),
     ansCreateWindowSurface = (\<lambda>h dpy config attrs. Surface 1),
     ansMakeCurrent = (\<lambda>h dpy surf ctx. True),
     ansQuerySurface = (\<lambda>h dpy surf attr. if attr = EGL_WIDTH then Some 1080 else Some 1920),
     decodeGamma = lit_2_2f,
     encodeGamma = lit_inv_2_2f,
     mathlib = coarse_libm\<rparr>"

text \<open>No configuration ever matches.\<close>

definition no_config_platform :: platform where
  "no_config_platform = willing_platform\<lparr>ansChooseConfig := (\<lambda>h dpy attrs. (True, 0, 0))\<rparr>"

text \<open>Contexts are refused.\<close>

definition no_context_platform :: platform where
  "no_context_platform =
    willing_platform\<lparr>ansCreateContext := (\<lambda>h dpy config attrs. EGL_NO_CONTEXT)\<rparr>"

text \<open>The window refuses the buffer geometry.\<close>

definition no_geometry_platform :: platform where
  "no_geometry_platform = willing_platform\<lparr>ansSetBuffersGeometry := (\<lambda>h format. - 1)\<rparr>"

text \<open>Window surfaces are refused.\<close>

definition no_surface_platform :: platform where
  "no_surface_platform =
    willing_platform\<lparr>ansCreateWindowSurface := (\<lambda>h dpy config attrs. EGL_NO_SURFACE)\<rparr>"

text \<open>
  The half-float request matches a configuration of its own (number 2), for
  which no context can be created.
\<close>

definition fp16_context_refusing_platform :: platform where
  "fp16_context_refusing_platform =
    willing_platform
      \<lparr>ansChooseConfig :=
         (\<lambda>h dpy attrs. (True, 1, if attrs = config_attributes P3_FP16 then 2 else 7)),
       ansCreateContext :=
         (\<lambda>h dpy config attrs. if config = 2 then EGL_NO_CONTEXT else Context 1)\<rparr>"

text \<open>
  A window carries one surface at a time: the creation of a window surface is
  refused while a surface created earlier has not been destroyed.
\<close>

definition one_surface_platform :: platform where
  "one_surface_platform =
    willing_platform
      \<lparr>ansCreateWindowSurface :=
         (\<lambda>h dpy config attrs. if live_surfaces h = [] then Surface 1 else EGL_NO_SURFACE)\<rparr>"

text \<open>
  No Display-P3 extension is listed, and only the request of the legacy mode
  matches a configuration.
\<close>

definition legacy_only_platform :: platform where
  "legacy_only_platform =
    willing_platform
      \<lparr>ansQueryString := (\<lambda>h dpy. Some ''EGL_KHR_image EGL_KHR_fence_sync''),
       ansChooseConfig :=
         (\<lambda>h dpy attrs.
            if attrs = config_attributes SRGBA_R8G8B8A8_REV then (True, 1, 7) else (True, 0, 0))\<rparr>"

text \<open>
  The constructed engine with its display opened, and an engine that holds a
  context and a surface of the legacy mode with a render target of the given size.
\<close>

definition opened_engine :: ImageViewEngine where
  "opened_engine = uninitialized_engine\<lparr>display := Display 1\<rparr>"

definition ready_engine :: "int \<Rightarrow> int \<Rightarrow> ImageViewEngine" where
  "ready_engine w ht =
    \<lparr>display = Display 1, surface = Surface 1, eglContext = Context 1,
     dispColorSpace = SRGB, dispFormat = R8G8B8A8_REV,
     renderTargetWidth = w, renderTargetHeight = ht\<rparr>"

section \<open>Properties\<close>

lemma mode_ordinal_in_tables:
  "mode_ordinal mode < length glWideColorCfg \<and> mode_ordinal mode < length appWideColorCfg"
  by (cases mode) (simp_all add: glWideColorCfg_def appWideColorCfg_def)

lemma config_attributes_shape:
  "config_attributes mode =
     [ EGL_SURFACE_TYPE, EGL_WINDOW_BIT, EGL_RENDERABLE_TYPE, EGL_OPENGL_ES3_BIT,
       EGL_BLUE_SIZE, Num (gl_b (glCfg mode)), EGL_GREEN_SIZE, Num (gl_g (glCfg mode)),
       EGL_RED_SIZE, Num (gl_r (glCfg mode)), EGL_ALPHA_SIZE, Num (gl_a (glCfg mode)),
       EGL_COLOR_COMPONENT_TYPE_EXT,
       (if mode = P3_FP16 then EGL_COLOR_COMPONENT_TYPE_FLOAT_EXT
        else EGL_COLOR_COMPONENT_TYPE_FIXED_EXT),
       EGL_NONE ]"
  by (simp add: config_attributes_def Let_def)

text \<open>
  C1. The claim asks for component type FLOAT exactly on the half-float
  wide-gamut modes. The passthrough half-float mode has 16-bit channels and the
  application format \<open>RGBA_FP16\<close>, yet its request carries component type FIXED:
  the comparison at line 359 names \<open>P3_FP16\<close> only.
\<close>

theorem passthrough_fp16_requests_fixed:
  "config_attributes P3_PASSTHROUGH_FP16 =
     [ EGL_SURFACE_TYPE, EGL_WINDOW_BIT, EGL_RENDERABLE_TYPE, EGL_OPENGL_ES3_BIT,
       EGL_BLUE_SIZE, Num 16, EGL_GREEN_SIZE, Num 16,
       EGL_RED_SIZE, Num 16, EGL_ALPHA_SIZE, Num 16,
       EGL_COLOR_COMPONENT_TYPE_EXT, EGL_COLOR_COMPONENT_TYPE_FIXED_EXT, EGL_NONE ]
   \<and> app_fmt (appCfg P3_PASSTHROUGH_FP16) = RGBA_FP16
   \<and> app_fmt (appCfg P3_FP16) = RGBA_FP16
   \<and> config_attributes P3_FP16 ! 13 = EGL_COLOR_COMPONENT_TYPE_FLOAT_EXT"
  by (simp add: config_attributes_def Let_def glCfg_def appCfg_def
      glWideColorCfg_def appWideColorCfg_def)

subsection \<open>The fixed-point transform\<close>

lemma fixed_coeff_one: "fixed_coeff lit_1_0f = 1024"
  by code_simp

lemma fixed_coeff_zero: "fixed_coeff \<lparr>mant = 0, expo = 0\<rparr> = 0"
  by code_simp

lemma wrap32_id: "- 2147483648 \<le> x \<Longrightarrow> x < 2147483648 \<Longrightarrow> wrap32 x = x"
  by (simp add: wrap32_def)

lemma wrap32_zero: "wrap32 0 = 0"
  by (simp add: wrap32_def)

lemma byte_bounds: "0 \<le> uint (x :: 8 word) \<and> uint x < 256"
  using uint_bounded [of x] by simp

lemma mul32_zero: "mul32 0 v = 0"
  by (simp add: mul32_def wrap32_def)

lemma wrap32_unit_byte: "wrap32 (1024 * uint (x :: 8 word)) = 1024 * uint x"
  by (rule wrap32_id) (use byte_bounds [of x] in linarith)+

lemma mul32_unit_byte: "mul32 1024 (uint (x :: 8 word)) = 1024 * uint x"
  by (simp add: mul32_def wrap32_unit_byte)

lemma add32_zero_left: "add32 0 v = wrap32 v"
  by (simp add: add32_def)

lemma add32_zero_right: "add32 v 0 = wrap32 v"
  by (simp add: add32_def)

lemma round_shift_unit_byte: "shr32 (add32 (1024 * uint (x :: 8 word)) 512) 10 = uint x"
proof -
  have "wrap32 (1024 * uint x + 512) = 1024 * uint x + 512"
    by (rule wrap32_id) (use byte_bounds [of x] in linarith)+
  moreover have "(1024 * uint x + 512) div 1024 = uint x"
    using byte_bounds [of x] by linarith
  ultimately show ?thesis
    by (simp add: shr32_def add32_def)
qed

lemma CLIP_COLOR_byte: "CLIP_COLOR (uint (x :: 8 word)) 255 = uint x"
proof -
  consider "uint x = 0" | "0 < uint x" "uint x \<le> 255"
    using byte_bounds [of x] by linarith
  then show ?thesis
    by cases (simp_all add: CLIP_COLOR_def)
qed

text \<open>
  C8. With the identity matrix \<open>TransformR8G8B8\<close> stores exactly the three bytes
  it was given, for all byte inputs: the coefficients become 1024 and 0, and
  \<open>(1024 * v + 512) >> 10\<close> is \<open>v\<close> for every byte \<open>v\<close>.
\<close>

theorem TransformR8G8B8_identity:
  "TransformR8G8B8 r g b identity_mat3 = (r, g, b)"
  by (simp add: TransformR8G8B8_def TransformR8G8B8_clipped_def identity_mat3_def fixed_row_def
      fixed_coeff_one fixed_coeff_zero mul32_zero mul32_unit_byte add32_zero_left
      add32_zero_right wrap32_zero wrap32_unit_byte round_shift_unit_byte CLIP_COLOR_byte)

lemma CLIP_COLOR_255: "0 \<le> CLIP_COLOR c 255 \<and> CLIP_COLOR c 255 \<le> 255"
  by (simp add: CLIP_COLOR_def)

lemma narrow_clipped: "uint (word_of_int (CLIP_COLOR c 255) :: 8 word) = CLIP_COLOR c 255"
proof -
  have "0 \<le> CLIP_COLOR c 255" "CLIP_COLOR c 255 < 256"
    using CLIP_COLOR_255 [of c] by simp_all
  then show ?thesis
    by (simp add: uint_word_of_int take_bit_int_eq_self)
qed

text \<open>
  C9. For every matrix and all byte inputs, each of the three values handed to
  the narrowing store lies between 0 and 255, whatever the fixed-point sums are,
  so the bytes stored are exactly these values.
\<close>

theorem TransformR8G8B8_clipped_range:
  "case TransformR8G8B8_clipped srcR srcG srcB transMatrix of
     (r, g, b) \<Rightarrow>
       0 \<le> r \<and> r \<le> 255 \<and> 0 \<le> g \<and> g \<le> 255 \<and> 0 \<le> b \<and> b \<le> 255
       \<and> (case TransformR8G8B8 srcR srcG srcB transMatrix of
             (dstR, dstG, dstB) \<Rightarrow> uint dstR = r \<and> uint dstG = g \<and> uint dstB = b)"
  by (simp add: TransformR8G8B8_def TransformR8G8B8_clipped_def Let_def CLIP_COLOR_255
      narrow_clipped)

text \<open>
  C10. The claim asks for the integer nearest to \<open>coeff * 1024\<close>, for negative
  coefficients too. The coefficient \<open>-0.5\<close> gives \<open>-512\<close> exactly, but the
  conversion adds one half and then drops the fraction towards zero, which
  yields \<open>-511\<close>; the coefficient \<open>0.5\<close> is converted to \<open>512\<close> as claimed.
\<close>

theorem fixed_coeff_negative_half:
  "fixed_coeff \<lparr>mant = - 1, expo = - 1\<rparr> = - 511
   \<and> flt_val \<lparr>mant = - 1, expo = - 1\<rparr> * 1024 = - 512
   \<and> round (flt_val \<lparr>mant = - 1, expo = - 1\<rparr> * 1024) = - 512
   \<and> fixed_coeff \<lparr>mant = 1, expo = - 1\<rparr> = 512
   \<and> round (flt_val \<lparr>mant = 1, expo = - 1\<rparr> * 1024) = 512"
  by code_simp

subsection \<open>The gamma table builders\<close>

lemma push_samples_append:
  "push_samples sample idx bound table = table @ map sample [idx..<bound]"
proof (induction sample idx bound table rule: push_samples.induct)
  case (1 sample idx bound table)
  show ?case
  proof (cases "idx < bound")
    case True
    then show ?thesis
      using "1.IH" by (subst push_samples.simps) (simp add: upt_conv_Cons)
  next
    case False
    then show ?thesis
      by (subst push_samples.simps) simp
  qed
qed

lemma encode_breakpoint: "to_uint32 (f32_mul lit_0_0031308f (f32_of_int 255)) = 0"
  by code_simp

lemma decode_breakpoint: "to_uint32 (f64_mul lit_0_04045 (flt_of_int 255)) = 10"
  by code_simp

lemma CreateGammaEncodeTable_result:
  "CreateGammaEncodeTable lm gamma table =
    (if flt_less gamma lit_1_0f then Inr (map (encode_power_sample lm gamma) [0..<256])
     else Inl (AssertionFailed ''Wrong Gamma (%f) for encoding''))"
  by (simp add: CreateGammaEncodeTable_def Let_def encode_breakpoint push_samples_append
      del: upt_rec_numeral upt_Suc)

lemma CreateGammaDecodeTable_result:
  "CreateGammaDecodeTable lm gamma table =
    (if flt_less lit_1_0f gamma
     then Inr (table @ map decode_linear_sample [0..<10]
                 @ map (decode_power_sample lm gamma) [10..<256])
     else Inl (AssertionFailed ''Wrong Gamma(%f) for decoding''))"
  by (simp add: CreateGammaDecodeTable_def Let_def decode_breakpoint push_samples_append
      del: upt_rec_numeral upt_Suc)

lemma gamma_2_2_above_one: "flt_less lit_1_0f lit_2_2f"
  by code_simp

lemma gamma_inv_2_2_below_one: "flt_less lit_inv_2_2f lit_1_0f"
  by code_simp

text \<open>
  C6. The claim asks for exactly 256 entries from either builder, whatever the
  output vector held before. \<open>CreateGammaEncodeTable\<close> empties the vector first;
  \<open>CreateGammaDecodeTable\<close> does not, and appends its 256 entries to the prior
  contents: from a vector of one byte it returns 257 bytes, the first being the
  old one.
\<close>

theorem decode_table_keeps_prior_contents:
  "map_sum id length (CreateGammaDecodeTable lm lit_2_2f [7]) = Inr 257
   \<and> map_sum id hd (CreateGammaDecodeTable lm lit_2_2f [7]) = Inr 7
   \<and> map_sum id length (CreateGammaEncodeTable lm lit_inv_2_2f [7]) = Inr 256"
  by (simp add: CreateGammaDecodeTable_result CreateGammaEncodeTable_result
      gamma_2_2_above_one gamma_inv_2_2_below_one del: upt_rec_numeral upt_Suc)

subsection \<open>The encode table at gamma 0\<close>

lemma c_pow_exponent_zero: "c_pow lm prec x \<lparr>mant = 0, expo = 0\<rparr> = lit_1_0f"
  by (simp add: c_pow_def)

lemma gamma_zero_below_one: "flt_less \<lparr>mant = 0, expo = 0\<rparr> lit_1_0f"
  by code_simp

lemma power_sample_of_one_single:
  "word_of_int (flt_trunc (CLIP_COLOR_dbl
     (f64_add (f64_mul (f32_sub (f32_mul lit_1_055f lit_1_0f) lit_0_055f) (flt_of_int 255)) lit_0_5f)
     maxPixelf)) = (255 :: uint8_t)"
  by code_simp

lemma power_sample_of_one_double:
  "word_of_int (flt_trunc (CLIP_COLOR_dbl
     (f64_add (f64_mul (f64_sub (f64_mul lit_1_055f lit_1_0f) lit_0_055f) (flt_of_int 255)) lit_0_5f)
     maxPixelf)) = (255 :: uint8_t)"
  by code_simp

lemma encode_power_sample_gamma_zero:
  "encode_power_sample lm \<lparr>mant = 0, expo = 0\<rparr> idx = 255"
  by (cases "pow_float_overload lm")
    (simp_all add: encode_power_sample_def c_pow_exponent_zero
      power_sample_of_one_single power_sample_of_one_double)

text \<open>
  C7. The claim asks, for every gamma below 1.0, for an encode table whose entry
  0 is 0. The gamma \<open>0.0f\<close> passes the assertion of line 125. The bound of the
  first loop, \<^verbatim>\<open>static_cast<uint32_t>(0.0031308f * maxPixeli)\<close>, is 0, so the
  linear segment \<^verbatim>\<open>12.92 * LinearRGB\<close> that the comment of the function describes
  is never stored and index 0 is computed by the power law; with
  \<^verbatim>\<open>pow(x, 0) = 1\<close> the power law gives 255 at every index, whatever the library
  returns elsewhere and whichever overload of \<^verbatim>\<open>pow\<close> is called. The table for
  gamma \<open>0.0f\<close> is 256 times 255, and its entry 0 is 255.
\<close>

theorem encode_table_at_gamma_zero:
  "flt_less \<lparr>mant = 0, expo = 0\<rparr> lit_1_0f
   \<and> to_uint32 (f32_mul lit_0_0031308f (f32_of_int 255)) = 0
   \<and> CreateGammaEncodeTable lm \<lparr>mant = 0, expo = 0\<rparr> table = Inr (replicate 256 255)
   \<and> map_sum id (\<lambda>t. t ! 0) (CreateGammaEncodeTable lm \<lparr>mant = 0, expo = 0\<rparr> table) = Inr 255
   \<and> encode_linear_sample 0 = 0"
proof -
  have "encode_power_sample lm \<lparr>mant = 0, expo = 0\<rparr> = (\<lambda>idx. 255)"
    by (rule ext) (rule encode_power_sample_gamma_zero)
  then have "map (encode_power_sample lm \<lparr>mant = 0, expo = 0\<rparr>) [0..<256] = replicate 256 255"
    by (simp add: map_replicate_const del: upt_rec_numeral upt_Suc)
  then have table: "CreateGammaEncodeTable lm \<lparr>mant = 0, expo = 0\<rparr> table = Inr (replicate 256 255)"
    by (simp add: CreateGammaEncodeTable_result gamma_zero_below_one
        del: upt_rec_numeral upt_Suc)
  have first: "encode_linear_sample 0 = 0"
    by code_simp
  show ?thesis
    unfolding table using gamma_zero_below_one encode_breakpoint first
    by simp
qed

subsection \<open>A single attempt\<close>

lemma live_contexts_append:
  "live_contexts (h @ calls) = foldl context_effect (live_contexts h) calls"
  by (simp add: live_contexts_def)

lemma live_surfaces_append:
  "live_surfaces (h @ calls) = foldl surface_effect (live_surfaces h) calls"
  by (simp add: live_surfaces_def)

lemma restore_context: "eglContext e = EGL_NO_CONTEXT \<Longrightarrow> e\<lparr>eglContext := EGL_NO_CONTEXT\<rparr> = e"
  by (cases e) simp

lemma restore_surface: "surface e = EGL_NO_SURFACE \<Longrightarrow> e\<lparr>surface := EGL_NO_SURFACE\<rparr> = e"
  by (cases e) simp

text \<open>
  The gamma tables are local to the attempt and are not read after they are
  built: the prelude contributes its two assertions and nothing else. Concrete
  runs are evaluated with this equation, which spares them the tables.
\<close>

lemma CreateWideColorCtx_mode_after_tables [code]:
  "CreateWideColorCtx_mode p mode s =
    (case s of (e, h) \<Rightarrow>
     if \<not> flt_less lit_1_0f (decodeGamma p)
     then Inl (AssertionFailed ''Wrong Gamma(%f) for decoding'')
     else if \<not> flt_less (encodeGamma p) lit_1_0f
     then Inl (AssertionFailed ''Wrong Gamma (%f) for encoding'')
     else
     let attributes = config_attributes mode in
     case ansChooseConfig p h (display e) attributes of (status, cfgCount, config) \<Rightarrow>
     let h = h @ [EglChooseConfig (display e) attributes 1] in
     if \<not> status \<or> cfgCount \<noteq> 1 then Inr (False, e, h)
     else
       let attributes = [EGL_CONTEXT_CLIENT_VERSION, Num 3, EGL_NONE];
           ctx = ansCreateContext p h (display e) config attributes;
           h = h @ [EglCreateContext (display e) config EGL_NO_CONTEXT attributes ctx];
           e = e\<lparr>eglContext := ctx\<rparr>
       in
       if eglContext e = EGL_NO_CONTEXT then Inr (False, e, h)
       else
         let format = ansGetConfigAttrib p h (display e) config EGL_NATIVE_VISUAL_ID;
             h = h @ [EglGetConfigAttrib (display e) config EGL_NATIVE_VISUAL_ID];
             res = ansSetBuffersGeometry p h format;
             h = h @ [ANativeWindow_setBuffersGeometry 0 0 format]
         in
         if res < 0 then
           let h = h @ [EglDestroyContext (display e) (eglContext e)];
               e = e\<lparr>eglContext := EGL_NO_CONTEXT\<rparr>
           in Inr (False, e, h)
         else
           let attributes = [EGL_GL_COLORSPACE_KHR, gl_space (glCfg mode), EGL_NONE];
               surf = ansCreateWindowSurface p h (display e) config attributes;
               h = h @ [EglCreateWindowSurface (display e) config attributes surf];
               e = e\<lparr>surface := surf\<rparr>
           in
           if surface e = EGL_NO_SURFACE then
             let h = h @ [EglDestroyContext (display e) (eglContext e)];
                 e = e\<lparr>eglContext := EGL_NO_CONTEXT\<rparr>
             in Inr (False, e, h)
           else
             let status = ansMakeCurrent p h (display e) (surface e) (eglContext e);
                 h = h @ [EglMakeCurrent (display e) (surface e) (surface e) (eglContext e)]
             in
             if \<not> status then Inl (AssertionFailed ''eglMakeCurrent() Failed'')
             else
               let e = e\<lparr>dispColorSpace := app_space (appCfg mode)\<rparr>;
                   e = e\<lparr>dispFormat := app_fmt (appCfg mode)\<rparr>;
                   width = ansQuerySurface p h (display e) (surface e) EGL_WIDTH;
                   h = h @ [EglQuerySurface (display e) (surface e) EGL_WIDTH];
                   e = (case width of None \<Rightarrow> e | Some v \<Rightarrow> e\<lparr>renderTargetWidth := v\<rparr>);
                   height = ansQuerySurface p h (display e) (surface e) EGL_HEIGHT;
                   h = h @ [EglQuerySurface (display e) (surface e) EGL_HEIGHT];
                   e = (case height of None \<Rightarrow> e | Some v \<Rightarrow> e\<lparr>renderTargetHeight := v\<rparr>)
               in Inr (True, e, h))"
  unfolding CreateWideColorCtx_mode_def CreateGammaDecodeTable_result CreateGammaEncodeTable_result
  by (cases s) (simp del: upt_rec_numeral upt_Suc)

text \<open>
  C2. Let the assertions of the gamma table builders pass, and name the answers
  of the platform along the attempt: the configuration match, the context
  \<open>ctx\<close>, the result \<open>res\<close> of the window geometry, and the surface \<open>surf\<close>, each
  asked after the calls before it. Then a refusal at any of the four steps makes
  the attempt return \<open>false\<close>, with exactly the calls listed: at the
  configuration match the engine is untouched; at the context creation the
  context field holds its sentinel; at the window geometry and at the surface
  creation the context just created is destroyed again and the context field
  (and, at the surface creation, the surface field) holds its sentinel. When
  all four steps are granted the attempt does not return \<open>false\<close>. Whenever the
  attempt returns \<open>false\<close>, every context and surface it created has been
  destroyed again; and entered with the context and the surface at their
  sentinels, it returns the engine state as it was.
\<close>

theorem failed_attempt_restores_state:
  assumes "flt_less lit_1_0f (decodeGamma p)" and "flt_less (encodeGamma p) lit_1_0f"
    and "ansChooseConfig p h (display e) (config_attributes mode) = (status, cfgCount, config)"
    and "h1 = h @ [EglChooseConfig (display e) (config_attributes mode) 1]"
    and "ctx = ansCreateContext p h1 (display e) config [EGL_CONTEXT_CLIENT_VERSION, Num 3, EGL_NONE]"
    and "h2 = h1 @ [EglCreateContext (display e) config EGL_NO_CONTEXT
                      [EGL_CONTEXT_CLIENT_VERSION, Num 3, EGL_NONE] ctx]"
    and "format = ansGetConfigAttrib p h2 (display e) config EGL_NATIVE_VISUAL_ID"
    and "h3 = h2 @ [EglGetConfigAttrib (display e) config EGL_NATIVE_VISUAL_ID]"
    and "res = ansSetBuffersGeometry p h3 format"
    and "h4 = h3 @ [ANativeWindow_setBuffersGeometry 0 0 format]"
    and "surf = ansCreateWindowSurface p h4 (display e) config
                  [EGL_GL_COLORSPACE_KHR, gl_space (glCfg mode), EGL_NONE]"
    and "h5 = h4 @ [EglCreateWindowSurface (display e) config
                      [EGL_GL_COLORSPACE_KHR, gl_space (glCfg mode), EGL_NONE] surf]"
  shows
    "(\<not> (status \<and> cfgCount = 1) \<longrightarrow>
        CreateWideColorCtx_mode p mode (e, h) = Inr (False, e, h1))
     \<and> (status \<and> cfgCount = 1 \<and> ctx = EGL_NO_CONTEXT \<longrightarrow>
        CreateWideColorCtx_mode p mode (e, h) =
          Inr (False, e\<lparr>eglContext := EGL_NO_CONTEXT\<rparr>, h2))
     \<and> (status \<and> cfgCount = 1 \<and> ctx \<noteq> EGL_NO_CONTEXT \<and> res < 0 \<longrightarrow>
        CreateWideColorCtx_mode p mode (e, h) =
          Inr (False, e\<lparr>eglContext := EGL_NO_CONTEXT\<rparr>,
               h4 @ [EglDestroyContext (display e) ctx]))
     \<and> (status \<and> cfgCount = 1 \<and> ctx \<noteq> EGL_NO_CONTEXT \<and> \<not> res < 0 \<and> surf = EGL_NO_SURFACE \<longrightarrow>
        CreateWideColorCtx_mode p mode (e, h) =
          Inr (False, e\<lparr>surface := EGL_NO_SURFACE, eglContext := EGL_NO_CONTEXT\<rparr>,
               h5 @ [EglDestroyContext (display e) ctx]))
     \<and> (status \<and> cfgCount = 1 \<and> ctx \<noteq> EGL_NO_CONTEXT \<and> \<not> res < 0 \<and> surf \<noteq> EGL_NO_SURFACE \<longrightarrow>
        (\<forall>e' h'. CreateWideColorCtx_mode p mode (e, h) \<noteq> Inr (False, e', h')))
     \<and> (\<forall>e' h'. CreateWideColorCtx_mode p mode (e, h) = Inr (False, e', h') \<longrightarrow>
          live_contexts h' = live_contexts h \<and> live_surfaces h' = live_surfaces h
          \<and> (eglContext e = EGL_NO_CONTEXT \<and> surface e = EGL_NO_SURFACE \<longrightarrow> e' = e))"
proof (intro conjI allI impI)
  assume "\<not> (status \<and> cfgCount = 1)"
  then show "CreateWideColorCtx_mode p mode (e, h) = Inr (False, e, h1)"
    unfolding CreateWideColorCtx_mode_after_tables using assms by (auto simp: Let_def)
next
  assume "status \<and> cfgCount = 1 \<and> ctx = EGL_NO_CONTEXT"
  then show "CreateWideColorCtx_mode p mode (e, h) =
          Inr (False, e\<lparr>eglContext := EGL_NO_CONTEXT\<rparr>, h2)"
    unfolding CreateWideColorCtx_mode_after_tables using assms by (simp add: Let_def)
next
  assume "status \<and> cfgCount = 1 \<and> ctx \<noteq> EGL_NO_CONTEXT \<and> res < 0"
  then show "CreateWideColorCtx_mode p mode (e, h) =
          Inr (False, e\<lparr>eglContext := EGL_NO_CONTEXT\<rparr>,
               h4 @ [EglDestroyContext (display e) ctx])"
    unfolding CreateWideColorCtx_mode_after_tables using assms by (simp add: Let_def)
next
  assume "status \<and> cfgCount = 1 \<and> ctx \<noteq> EGL_NO_CONTEXT \<and> \<not> res < 0 \<and> surf = EGL_NO_SURFACE"
  then show "CreateWideColorCtx_mode p mode (e, h) =
          Inr (False, e\<lparr>surface := EGL_NO_SURFACE, eglContext := EGL_NO_CONTEXT\<rparr>,
               h5 @ [EglDestroyContext (display e) ctx])"
    unfolding CreateWideColorCtx_mode_after_tables using assms by (simp add: Let_def)
next
  fix e' h'
  assume "status \<and> cfgCount = 1 \<and> ctx \<noteq> EGL_NO_CONTEXT \<and> \<not> res < 0 \<and> surf \<noteq> EGL_NO_SURFACE"
  then show "CreateWideColorCtx_mode p mode (e, h) \<noteq> Inr (False, e', h')"
    unfolding CreateWideColorCtx_mode_after_tables using assms by (simp add: Let_def)
next
  fix e' h'
  assume run: "CreateWideColorCtx_mode p mode (e, h) = Inr (False, e', h')"
  then show "live_contexts h' = live_contexts h"
    unfolding CreateWideColorCtx_mode_after_tables Let_def
    by (auto split: prod.splits if_splits option.splits simp: live_contexts_append)
  from run show "live_surfaces h' = live_surfaces h"
    unfolding CreateWideColorCtx_mode_after_tables Let_def
    by (auto split: prod.splits if_splits option.splits simp: live_surfaces_append)
  assume "eglContext e = EGL_NO_CONTEXT \<and> surface e = EGL_NO_SURFACE"
  with run show "e' = e"
    unfolding CreateWideColorCtx_mode_after_tables Let_def
    by (auto split: prod.splits if_splits option.splits simp: restore_context restore_surface)
qed

theorem failed_attempt_restores_state_witness:
  "CreateWideColorCtx_mode no_config_platform P3_FP16 (opened_engine, []) =
      Inr (False, opened_engine, [EglChooseConfig (Display 1) (config_attributes P3_FP16) 1])
   \<and> CreateWideColorCtx_mode no_context_platform P3_FP16 (opened_engine, []) =
      Inr (False, opened_engine,
           [EglChooseConfig (Display 1) (config_attributes P3_FP16) 1,
            EglCreateContext (Display 1) 7 EGL_NO_CONTEXT
              [EGL_CONTEXT_CLIENT_VERSION, Num 3, EGL_NONE] EGL_NO_CONTEXT])
   \<and> CreateWideColorCtx_mode no_geometry_platform P3_FP16 (opened_engine, []) =
      Inr (False, opened_engine,
           [EglChooseConfig (Display 1) (config_attributes P3_FP16) 1,
            EglCreateContext (Display 1) 7 EGL_NO_CONTEXT
              [EGL_CONTEXT_CLIENT_VERSION, Num 3, EGL_NONE] (Context 1),
            EglGetConfigAttrib (Display 1) 7 EGL_NATIVE_VISUAL_ID,
            ANativeWindow_setBuffersGeometry 0 0 1,
            EglDestroyContext (Display 1) (Context 1)])
   \<and> CreateWideColorCtx_mode no_surface_platform P3_FP16 (opened_engine, []) =
      Inr (False, opened_engine,
           [EglChooseConfig (Display 1) (config_attributes P3_FP16) 1,
            EglCreateContext (Display 1) 7 EGL_NO_CONTEXT
              [EGL_CONTEXT_CLIENT_VERSION, Num 3, EGL_NONE] (Context 1),
            EglGetConfigAttrib (Display 1) 7 EGL_NATIVE_VISUAL_ID,
            ANativeWindow_setBuffersGeometry 0 0 1,
            EglCreateWindowSurface (Display 1) 7
              [EGL_GL_COLORSPACE_KHR, EGL_GL_COLORSPACE_DISPLAY_P3_EXT, EGL_NONE] EGL_NO_SURFACE,
            EglDestroyContext (Display 1) (Context 1)])
   \<and> (\<forall>e' h'. CreateWideColorCtx_mode willing_platform P3_FP16 (opened_engine, [])
                  \<noteq> Inr (False, e', h'))
   \<and> live_contexts
          [EglChooseConfig (Display 1) (config_attributes P3_FP16) 1,
            EglCreateContext (Display 1) 7 EGL_NO_CONTEXT
              [EGL_CONTEXT_CLIENT_VERSION, Num 3, EGL_NONE] (Context 1),
            EglGetConfigAttrib (Display 1) 7 EGL_NATIVE_VISUAL_ID,
            ANativeWindow_setBuffersGeometry 0 0 1,
            EglCreateWindowSurface (Display 1) 7
              [EGL_GL_COLORSPACE_KHR, EGL_GL_COLORSPACE_DISPLAY_P3_EXT, EGL_NONE] EGL_NO_SURFACE,
            EglDestroyContext (Display 1) (Context 1)]
        = live_contexts []
   \<and> live_surfaces
          [EglChooseConfig (Display 1) (config_attributes P3_FP16) 1,
            EglCreateContext (Display 1) 7 EGL_NO_CONTEXT
              [EGL_CONTEXT_CLIENT_VERSION, Num 3, EGL_NONE] (Context 1),
            EglGetConfigAttrib (Display 1) 7 EGL_NATIVE_VISUAL_ID,
            ANativeWindow_setBuffersGeometry 0 0 1,
            EglCreateWindowSurface (Display 1) 7
              [EGL_GL_COLORSPACE_KHR, EGL_GL_COLORSPACE_DISPLAY_P3_EXT, EGL_NONE] EGL_NO_SURFACE,
            EglDestroyContext (Display 1) (Context 1)]
        = live_surfaces []"
proof -
  have g: "flt_less lit_1_0f lit_2_2f" "flt_less lit_inv_2_2f lit_1_0f"
    by code_simp+
  have e: "display opened_engine = Display 1"
    "opened_engine\<lparr>eglContext := EGL_NO_CONTEXT\<rparr> = opened_engine"
    "opened_engine\<lparr>surface := EGL_NO_SURFACE, eglContext := EGL_NO_CONTEXT\<rparr> = opened_engine"
    by (simp_all add: opened_engine_def uninitialized_engine_def)
  have s: "gl_space (glCfg P3_FP16) = EGL_GL_COLORSPACE_DISPLAY_P3_EXT"
    by (simp add: glCfg_def glWideColorCfg_def)
  have "ansChooseConfig no_config_platform [] (display opened_engine) (config_attributes P3_FP16)
          = (True, 0, 0)"
    by (simp add: no_config_platform_def willing_platform_def)
  note config_step = failed_attempt_restores_state [where p = no_config_platform, OF _ _ this
      refl refl refl refl refl refl refl refl refl, THEN conjunct1]
  have r1: "CreateWideColorCtx_mode no_config_platform P3_FP16 (opened_engine, []) =
      Inr (False, opened_engine, [EglChooseConfig (Display 1) (config_attributes P3_FP16) 1])"
    using config_step g by (simp add: no_config_platform_def willing_platform_def e)
  have "ansChooseConfig no_context_platform [] (display opened_engine) (config_attributes P3_FP16)
          = (True, 1, 7)"
    by (simp add: no_context_platform_def willing_platform_def)
  note context_step = failed_attempt_restores_state [where p = no_context_platform, OF _ _ this
      refl refl refl refl refl refl refl refl refl, THEN conjunct2, THEN conjunct1]
  have r2: "CreateWideColorCtx_mode no_context_platform P3_FP16 (opened_engine, []) =
      Inr (False, opened_engine,
           [EglChooseConfig (Display 1) (config_attributes P3_FP16) 1,
            EglCreateContext (Display 1) 7 EGL_NO_CONTEXT
              [EGL_CONTEXT_CLIENT_VERSION, Num 3, EGL_NONE] EGL_NO_CONTEXT])"
    using context_step g by (simp add: no_context_platform_def willing_platform_def e)
  have "ansChooseConfig no_geometry_platform [] (display opened_engine) (config_attributes P3_FP16)
          = (True, 1, 7)"
    by (simp add: no_geometry_platform_def willing_platform_def)
  note geometry_step = failed_attempt_restores_state [where p = no_geometry_platform, OF _ _ this
      refl refl refl refl refl refl refl refl refl, THEN conjunct2, THEN conjunct2, THEN conjunct1]
  have r3: "CreateWideColorCtx_mode no_geometry_platform P3_FP16 (opened_engine, []) =
      Inr (False, opened_engine,
           [EglChooseConfig (Display 1) (config_attributes P3_FP16) 1,
            EglCreateContext (Display 1) 7 EGL_NO_CONTEXT
              [EGL_CONTEXT_CLIENT_VERSION, Num 3, EGL_NONE] (Context 1),
            EglGetConfigAttrib (Display 1) 7 EGL_NATIVE_VISUAL_ID,
            ANativeWindow_setBuffersGeometry 0 0 1,
            EglDestroyContext (Display 1) (Context 1)])"
    using geometry_step g by (simp add: no_geometry_platform_def willing_platform_def e)
  have "ansChooseConfig no_surface_platform [] (display opened_engine) (config_attributes P3_FP16)
          = (True, 1, 7)"
    by (simp add: no_surface_platform_def willing_platform_def)
  note surface_step = failed_attempt_restores_state [where p = no_surface_platform, OF _ _ this
      refl refl refl refl refl refl refl refl refl, THEN conjunct2, THEN conjunct2,
      THEN conjunct2, THEN conjunct1]
  have r4: "CreateWideColorCtx_mode no_surface_platform P3_FP16 (opened_engine, []) =
      Inr (False, opened_engine,
           [EglChooseConfig (Display 1) (config_attributes P3_FP16) 1,
            EglCreateContext (Display 1) 7 EGL_NO_CONTEXT
              [EGL_CONTEXT_CLIENT_VERSION, Num 3, EGL_NONE] (Context 1),
            EglGetConfigAttrib (Display 1) 7 EGL_NATIVE_VISUAL_ID,
            ANativeWindow_setBuffersGeometry 0 0 1,
            EglCreateWindowSurface (Display 1) 7
              [EGL_GL_COLORSPACE_KHR, EGL_GL_COLORSPACE_DISPLAY_P3_EXT, EGL_NONE] EGL_NO_SURFACE,
            EglDestroyContext (Display 1) (Context 1)])"
    using surface_step g by (simp add: no_surface_platform_def willing_platform_def e s)
  have "ansChooseConfig willing_platform [] (display opened_engine) (config_attributes P3_FP16)
          = (True, 1, 7)"
    by (simp add: willing_platform_def)
  note all_granted = failed_attempt_restores_state [where p = willing_platform, OF _ _ this
      refl refl refl refl refl refl refl refl refl, THEN conjunct2, THEN conjunct2,
      THEN conjunct2, THEN conjunct2, THEN conjunct1]
  have r5: "\<forall>e' h'. CreateWideColorCtx_mode willing_platform P3_FP16 (opened_engine, [])
                  \<noteq> Inr (False, e', h')"
    using all_granted g by (simp add: willing_platform_def)
  have "ansChooseConfig no_surface_platform [] (display opened_engine) (config_attributes P3_FP16)
          = (True, 1, 7)"
    by (simp add: no_surface_platform_def willing_platform_def)
  note no_leak = failed_attempt_restores_state [where p = no_surface_platform, OF _ _ this
      refl refl refl refl refl refl refl refl refl, THEN conjunct2, THEN conjunct2,
      THEN conjunct2, THEN conjunct2, THEN conjunct2]
  have r6: "live_contexts
          [EglChooseConfig (Display 1) (config_attributes P3_FP16) 1,
            EglCreateContext (Display 1) 7 EGL_NO_CONTEXT
              [EGL_CONTEXT_CLIENT_VERSION, Num 3, EGL_NONE] (Context 1),
            EglGetConfigAttrib (Display 1) 7 EGL_NATIVE_VISUAL_ID,
            ANativeWindow_setBuffersGeometry 0 0 1,
            EglCreateWindowSurface (Display 1) 7
              [EGL_GL_COLORSPACE_KHR, EGL_GL_COLORSPACE_DISPLAY_P3_EXT, EGL_NONE] EGL_NO_SURFACE,
            EglDestroyContext (Display 1) (Context 1)]
        = live_contexts []
      \<and> live_surfaces
          [EglChooseConfig (Display 1) (config_attributes P3_FP16) 1,
            EglCreateContext (Display 1) 7 EGL_NO_CONTEXT
              [EGL_CONTEXT_CLIENT_VERSION, Num 3, EGL_NONE] (Context 1),
            EglGetConfigAttrib (Display 1) 7 EGL_NATIVE_VISUAL_ID,
            ANativeWindow_setBuffersGeometry 0 0 1,
            EglCreateWindowSurface (Display 1) 7
              [EGL_GL_COLORSPACE_KHR, EGL_GL_COLORSPACE_DISPLAY_P3_EXT, EGL_NONE] EGL_NO_SURFACE,
            EglDestroyContext (Display 1) (Context 1)]
        = live_surfaces []"
    using no_leak [rule_format, OF _ _ r4] g
    by (simp add: no_surface_platform_def willing_platform_def)
  from r1 r2 r3 r4 r5 r6 show ?thesis
    by (intro conjI) simp_all
qed

subsection \<open>The fallback chain\<close>

lemma has_token_position:
  "has_token ext tok \<longleftrightarrow> (\<exists>i\<le>length ext. take (length tok) (drop i ext) = tok)"
  unfolding has_token_def list_ex_iff
  by (auto simp: less_Suc_eq_le simp del: upt_Suc)

lemma has_token_Nil: "has_token [] tok \<longleftrightarrow> tok = []"
  by (auto simp: has_token_position)

lemma has_token_Cons:
  "has_token (c # cs) tok \<longleftrightarrow> take (length tok) (c # cs) = tok \<or> has_token cs tok"
proof -
  have "(\<exists>i\<le>Suc (length cs). take (length tok) (drop i (c # cs)) = tok) \<longleftrightarrow>
        take (length tok) (drop 0 (c # cs)) = tok
        \<or> (\<exists>i\<le>length cs. take (length tok) (drop (Suc i) (c # cs)) = tok)"
    by (metis Suc_le_mono le0 not0_implies_Suc)
  then show ?thesis
    by (simp add: has_token_position)
qed

lemma string_find_has_token: "string_find ext tok \<noteq> None \<longleftrightarrow> has_token ext tok"
  by (induction ext) (auto simp: has_token_Nil has_token_Cons)

lemma string_find_None: "string_find ext tok = None \<longleftrightarrow> \<not> has_token ext tok"
  using string_find_has_token [of ext tok] by blast

lemma all_found_HasExtensions: "all_found ext required = HasExtensions ext required"
  by (induction required) (simp_all add: HasExtensions_def string_find_None)

lemma CheckRequiredEGLExt_HasExtensions:
  "CheckRequiredEGLExt p h disp exts =
    (case ansQueryString p h disp of
       None \<Rightarrow> Inl NullExtensionString
     | Some ext \<Rightarrow> Inr (HasExtensions ext exts, h @ [EglQueryString disp EGL_EXTENSIONS]))"
  by (simp add: CheckRequiredEGLExt_def all_found_HasExtensions split: option.splits)

lemma try_modes_all_fail: "try_modes p modes s = Inr (False, s') \<longleftrightarrow> all_fail p modes s s'"
  by (induction modes arbitrary: s) (auto split: sum.splits)

lemma all_fail_snoc:
  "all_fail p (modes @ [mode]) s s' \<longleftrightarrow>
     (\<exists>s1. all_fail p modes s s1 \<and> CreateWideColorCtx_mode p mode s1 = Inr (False, s'))"
  by (induction modes arbitrary: s) (auto split: sum.splits)

lemma try_modes_stops:
  assumes "\<And>s'. r \<noteq> Inr (False, s')"
  shows "try_modes p modes s = r \<longleftrightarrow>
     (\<exists>pre mode post s1. modes = pre @ mode # post \<and> all_fail p pre s s1
        \<and> CreateWideColorCtx_mode p mode s1 = r)"
proof (induction modes arbitrary: s)
  case Nil
  show ?case
    using assms [of s] by auto
next
  case (Cons m modes)
  have split_list: "(\<exists>pre mode post s1. m # modes = pre @ mode # post \<and> all_fail p pre s s1
        \<and> CreateWideColorCtx_mode p mode s1 = r) \<longleftrightarrow>
     CreateWideColorCtx_mode p m s = r
     \<or> (\<exists>pre mode post s1. modes = pre @ mode # post \<and> all_fail p (m # pre) s s1
        \<and> CreateWideColorCtx_mode p mode s1 = r)"
    (is "?L \<longleftrightarrow> ?here \<or> ?later")
  proof
    assume ?L
    then obtain pre mode post s1 where
      h: "m # modes = pre @ mode # post" "all_fail p pre s s1"
         "CreateWideColorCtx_mode p mode s1 = r" by blast
    show "?here \<or> ?later"
    proof (cases pre)
      case Nil
      with h show ?thesis by simp
    next
      case (Cons a pre')
      with h(1) have "a = m" "modes = pre' @ mode # post" by simp_all
      with h(2,3) Cons show ?thesis by blast
    qed
  next
    assume "?here \<or> ?later"
    then show ?L
    proof
      assume ?here
      then have "m # modes = [] @ m # modes \<and> all_fail p [] s s
        \<and> CreateWideColorCtx_mode p m s = r" by simp
      then show ?L by blast
    next
      assume ?later
      then obtain pre mode post s1 where
        "modes = pre @ mode # post" "all_fail p (m # pre) s s1"
        "CreateWideColorCtx_mode p mode s1 = r" by blast
      then have "m # modes = (m # pre) @ mode # post \<and> all_fail p (m # pre) s s1
        \<and> CreateWideColorCtx_mode p mode s1 = r" by simp
      then show ?L by blast
    qed
  qed
  show ?case
  proof (cases "CreateWideColorCtx_mode p m s")
    case (Inl f)
    then show ?thesis
      unfolding split_list by auto
  next
    case (Inr res)
    obtain ok s1 where res: "res = (ok, s1)" by (cases res)
    show ?thesis
    proof (cases ok)
      case True
      then show ?thesis
        unfolding split_list using Inr res by auto
    next
      case False
      then show ?thesis
        unfolding split_list using Inr res assms [of s1] Cons.IH [of s1] by auto
    qed
  qed
qed

lemma selected_chain:
  assumes "SelectFallbackChain p (OpenDisplay p (e, h)) = Inr (chain, s0)"
  shows "fst s0 = e\<lparr>display := ansGetDisplay p h\<rparr>
    \<and> chain \<in> {passthrough_chain, standard_chain, legacy_chain}"
  using assms unfolding SelectFallbackChain_def OpenDisplay_def Let_def
  by (auto split: option.splits if_splits)

lemma attempted_ends_in_legacy:
  "chain \<in> {passthrough_chain, standard_chain, legacy_chain} \<Longrightarrow>
   attempted chain = (if chain = legacy_chain then [] else chain) @ [SRGBA_R8G8B8A8_REV]"
  by (auto simp: attempted_def legacy_chain_def)

lemma legacy_loop:
  "try_modes p legacy_chain s = CreateWideColorCtx_mode p SRGBA_R8G8B8A8_REV s"
  by (auto simp: legacy_chain_def split: sum.splits)

text \<open>
  The source as a loop over the list that the spec's selection yields: the
  array \<^verbatim>\<open>modes\<close> after the three assignments is the passthrough chain followed
  by the legacy mode, the array as initialised is the standard chain followed by
  the legacy mode, and the early \<^verbatim>\<open>return CreateWideColorCtx(SRGBA_R8G8B8A8_REV)\<close>
  is the loop over the legacy chain.
\<close>

lemma CreateWideColorCtx_as_loop:
  "CreateWideColorCtx p s =
    (case SelectFallbackChain p (OpenDisplay p s) of
       Inl f \<Rightarrow> Inl f
     | Inr (chain, s0) \<Rightarrow> try_modes p (attempted chain) s0)"
proof (cases s)
  case (Pair e h)
  define d where "d = ansGetDisplay p h"
  define e0 where "e0 = e\<lparr>display := d\<rparr>"
  define h0 where "h0 = h @ [EglGetDisplay, EglInitialize d]"
  have d0: "display e0 = d"
    by (simp add: e0_def)
  have opened: "OpenDisplay p (e, h) = (e0, h0)"
    by (simp add: OpenDisplay_def e0_def h0_def d_def)
  have att: "attempted passthrough_chain = passthrough_chain @ [SRGBA_R8G8B8A8_REV]"
    "attempted standard_chain = standard_chain @ [SRGBA_R8G8B8A8_REV]"
    "attempted legacy_chain = legacy_chain"
    by (simp_all add: attempted_def passthrough_chain_def standard_chain_def legacy_chain_def)
  have src: "CreateWideColorCtx p (e, h) =
    (case CheckRequiredEGLExt p h0 d passthruExt of
       Inl f \<Rightarrow> Inl f
     | Inr (True, h1) \<Rightarrow> try_modes p (attempted passthrough_chain) (e0, h1)
     | Inr (False, h1) \<Rightarrow>
         (case CheckRequiredEGLExt p h1 d p3Exts of
            Inl f \<Rightarrow> Inl f
          | Inr (False, h2) \<Rightarrow> try_modes p (attempted legacy_chain) (e0, h2)
          | Inr (True, h2) \<Rightarrow> try_modes p (attempted standard_chain) (e0, h2)))"
    unfolding CreateWideColorCtx_def Let_def att legacy_loop
    unfolding passthrough_chain_def standard_chain_def
    by (simp add: e0_def [symmetric] h0_def [symmetric] d_def [symmetric] d0
        del: try_modes.simps split: sum.splits prod.splits bool.splits)
  have sel: "SelectFallbackChain p (e0, h0) =
    (case CheckRequiredEGLExt p h0 d passthruExt of
       Inl f \<Rightarrow> Inl f
     | Inr (True, h1) \<Rightarrow> Inr (passthrough_chain, (e0, h1))
     | Inr (False, h1) \<Rightarrow>
         (case CheckRequiredEGLExt p h1 d p3Exts of
            Inl f \<Rightarrow> Inl f
          | Inr (True, h2) \<Rightarrow> Inr (standard_chain, (e0, h2))
          | Inr (False, h2) \<Rightarrow> Inr (legacy_chain, (e0, h2))))"
    by (simp add: SelectFallbackChain_def CheckRequiredEGLExt_HasExtensions d0 Let_def
        split: option.splits)
  show ?thesis
    unfolding Pair opened sel src
    by (simp del: try_modes.simps split: sum.splits prod.splits bool.splits)
qed

text \<open>
  C3. After \<open>OpenDisplay\<close> and \<open>SelectFallbackChain\<close>, in the words of the spec,
  have selected a chain, \<open>CreateWideColorCtx\<close> returns \<open>true\<close> with a state
  exactly when some mode of the attempted list (the chain, followed by the
  legacy mode after a wide-gamut chain) succeeds with that state after every
  mode before it has failed, each attempt starting where the one before it
  ended; it returns \<open>false\<close> exactly when every entry of a wide-gamut chain has
  failed and the attempt on the legacy mode \<open>SRGBA_R8G8B8A8_REV\<close> that follows
  has failed as well; and it ends fatally exactly when the first attempt that
  does not return \<open>false\<close> ends fatally. A fatal end of the selection is the
  fatal end of \<open>CreateWideColorCtx\<close>.
\<close>

theorem CreateWideColorCtx_fallback:
  "(\<forall>f. SelectFallbackChain p (OpenDisplay p s) = Inl f \<longrightarrow> CreateWideColorCtx p s = Inl f)
   \<and> (\<forall>chain s0. SelectFallbackChain p (OpenDisplay p s) = Inr (chain, s0) \<longrightarrow>
        (\<forall>s'. CreateWideColorCtx p s = Inr (True, s') \<longleftrightarrow>
           (\<exists>pre mode post s1.
              attempted chain = pre @ mode # post
              \<and> all_fail p pre s0 s1
              \<and> CreateWideColorCtx_mode p mode s1 = Inr (True, s')))
        \<and> (\<forall>s'. CreateWideColorCtx p s = Inr (False, s') \<longleftrightarrow>
           (\<exists>s1. all_fail p (if chain = legacy_chain then [] else chain) s0 s1
              \<and> CreateWideColorCtx_mode p SRGBA_R8G8B8A8_REV s1 = Inr (False, s')))
        \<and> (\<forall>f. CreateWideColorCtx p s = Inl f \<longleftrightarrow>
           (\<exists>pre mode post s1.
              attempted chain = pre @ mode # post
              \<and> all_fail p pre s0 s1
              \<and> CreateWideColorCtx_mode p mode s1 = Inl f)))"
proof (intro conjI allI impI)
  fix f
  assume "SelectFallbackChain p (OpenDisplay p s) = Inl f"
  then show "CreateWideColorCtx p s = Inl f"
    by (simp add: CreateWideColorCtx_as_loop)
next
  fix chain s0 s'
  assume sel: "SelectFallbackChain p (OpenDisplay p s) = Inr (chain, s0)"
  then have loop: "CreateWideColorCtx p s = try_modes p (attempted chain) s0"
    by (simp add: CreateWideColorCtx_as_loop)
  show "CreateWideColorCtx p s = Inr (True, s') \<longleftrightarrow>
           (\<exists>pre mode post s1.
              attempted chain = pre @ mode # post
              \<and> all_fail p pre s0 s1
              \<and> CreateWideColorCtx_mode p mode s1 = Inr (True, s'))"
    unfolding loop by (rule try_modes_stops) simp
next
  fix chain s0 s'
  assume sel: "SelectFallbackChain p (OpenDisplay p s) = Inr (chain, s0)"
  then have loop: "CreateWideColorCtx p s = try_modes p (attempted chain) s0"
    by (simp add: CreateWideColorCtx_as_loop)
  obtain e h where s: "s = (e, h)" by (cases s)
  have "chain \<in> {passthrough_chain, standard_chain, legacy_chain}"
    using selected_chain [of p e h chain s0] sel s by simp
  then have att: "attempted chain = (if chain = legacy_chain then [] else chain) @ [SRGBA_R8G8B8A8_REV]"
    by (rule attempted_ends_in_legacy)
  show "CreateWideColorCtx p s = Inr (False, s') \<longleftrightarrow>
           (\<exists>s1. all_fail p (if chain = legacy_chain then [] else chain) s0 s1
              \<and> CreateWideColorCtx_mode p SRGBA_R8G8B8A8_REV s1 = Inr (False, s'))"
    unfolding loop try_modes_all_fail att all_fail_snoc ..
next
  fix chain s0 f
  assume sel: "SelectFallbackChain p (OpenDisplay p s) = Inr (chain, s0)"
  then have loop: "CreateWideColorCtx p s = try_modes p (attempted chain) s0"
    by (simp add: CreateWideColorCtx_as_loop)
  show "CreateWideColorCtx p s = Inl f \<longleftrightarrow>
           (\<exists>pre mode post s1.
              attempted chain = pre @ mode # post
              \<and> all_fail p pre s0 s1
              \<and> CreateWideColorCtx_mode p mode s1 = Inl f)"
    unfolding loop by (rule try_modes_stops) simp
qed

theorem CreateWideColorCtx_fallback_witness:
  "(\<exists>s0 s'.
      SelectFallbackChain willing_platform (OpenDisplay willing_platform (uninitialized_engine, []))
        = Inr (standard_chain, s0)
      \<and> CreateWideColorCtx_mode willing_platform P3_R8G8B8A8_REV s0 = Inr (True, s')
      \<and> CreateWideColorCtx willing_platform (uninitialized_engine, []) = Inr (True, s')
      \<and> dispColorSpace (fst s') = P3 \<and> dispFormat (fst s') = R8G8B8A8_REV)
   \<and> (\<exists>s0 s1 s'.
      SelectFallbackChain no_config_platform (OpenDisplay no_config_platform (uninitialized_engine, []))
        = Inr (standard_chain, s0)
      \<and> CreateWideColorCtx no_config_platform (uninitialized_engine, []) = Inr (False, s')
      \<and> all_fail no_config_platform standard_chain s0 s1
      \<and> CreateWideColorCtx_mode no_config_platform SRGBA_R8G8B8A8_REV s1 = Inr (False, s'))"
proof (intro conjI)
  define s0 where "s0 = (opened_engine,
    [EglGetDisplay, EglInitialize (Display 1),
     EglQueryString (Display 1) EGL_EXTENSIONS, EglQueryString (Display 1) EGL_EXTENSIONS])"
  have sel: "SelectFallbackChain willing_platform
            (OpenDisplay willing_platform (uninitialized_engine, [])) = Inr (standard_chain, s0)"
    unfolding s0_def by code_simp
  have "case CreateWideColorCtx_mode willing_platform P3_R8G8B8A8_REV s0 of
          Inl f \<Rightarrow> False
        | Inr (ok, s') \<Rightarrow>
            ok \<and> dispColorSpace (fst s') = P3 \<and> dispFormat (fst s') = R8G8B8A8_REV"
    unfolding s0_def by code_simp
  then obtain s' where
    run: "CreateWideColorCtx_mode willing_platform P3_R8G8B8A8_REV s0 = Inr (True, s')"
    and mode: "dispColorSpace (fst s') = P3" "dispFormat (fst s') = R8G8B8A8_REV"
    by (auto split: sum.splits)
  have "attempted standard_chain =
          [] @ P3_R8G8B8A8_REV # [P3_R10G10B10A2_REV, P3_FP16, SRGBA_R8G8B8A8_REV]
        \<and> all_fail willing_platform [] s0 s0
        \<and> CreateWideColorCtx_mode willing_platform P3_R8G8B8A8_REV s0 = Inr (True, s')"
    using run by (simp add: attempted_def standard_chain_def legacy_chain_def)
  then have "\<exists>pre mode post s1. attempted standard_chain = pre @ mode # post
        \<and> all_fail willing_platform pre s0 s1
        \<and> CreateWideColorCtx_mode willing_platform mode s1 = Inr (True, s')"
    by blast
  then have "CreateWideColorCtx willing_platform (uninitialized_engine, []) = Inr (True, s')"
    using CreateWideColorCtx_fallback [of willing_platform "(uninitialized_engine, [])"] sel
    by blast
  with sel run mode show "\<exists>s0 s'.
      SelectFallbackChain willing_platform (OpenDisplay willing_platform (uninitialized_engine, []))
        = Inr (standard_chain, s0)
      \<and> CreateWideColorCtx_mode willing_platform P3_R8G8B8A8_REV s0 = Inr (True, s')
      \<and> CreateWideColorCtx willing_platform (uninitialized_engine, []) = Inr (True, s')
      \<and> dispColorSpace (fst s') = P3 \<and> dispFormat (fst s') = R8G8B8A8_REV"
    by blast
next
  have "case SelectFallbackChain no_config_platform
               (OpenDisplay no_config_platform (uninitialized_engine, [])) of
          Inl f \<Rightarrow> False
        | Inr (chain, s0) \<Rightarrow> chain = standard_chain"
    by code_simp
  then obtain s0 where
    sel: "SelectFallbackChain no_config_platform
            (OpenDisplay no_config_platform (uninitialized_engine, [])) = Inr (standard_chain, s0)"
    by (auto split: sum.splits)
  have "case CreateWideColorCtx no_config_platform (uninitialized_engine, []) of
          Inl f \<Rightarrow> False | Inr (ok, s') \<Rightarrow> \<not> ok"
    by code_simp
  then obtain s' where run:
    "CreateWideColorCtx no_config_platform (uninitialized_engine, []) = Inr (False, s')"
    by (auto split: sum.splits)
  have wide: "standard_chain \<noteq> legacy_chain"
    by (simp add: standard_chain_def legacy_chain_def)
  have "\<exists>s1. all_fail no_config_platform
               (if standard_chain = legacy_chain then [] else standard_chain) s0 s1
          \<and> CreateWideColorCtx_mode no_config_platform SRGBA_R8G8B8A8_REV s1 = Inr (False, s')"
    using CreateWideColorCtx_fallback [of no_config_platform "(uninitialized_engine, [])"] sel run
    by blast
  then obtain s1 where "all_fail no_config_platform standard_chain s0 s1"
    "CreateWideColorCtx_mode no_config_platform SRGBA_R8G8B8A8_REV s1 = Inr (False, s')"
    using wide by auto
  with sel run show "\<exists>s0 s1 s'.
      SelectFallbackChain no_config_platform (OpenDisplay no_config_platform (uninitialized_engine, []))
        = Inr (standard_chain, s0)
      \<and> CreateWideColorCtx no_config_platform (uninitialized_engine, []) = Inr (False, s')
      \<and> all_fail no_config_platform standard_chain s0 s1
      \<and> CreateWideColorCtx_mode no_config_platform SRGBA_R8G8B8A8_REV s1 = Inr (False, s')"
    by blast
qed

subsection \<open>Tear-down\<close>

lemma destroy_closed: "display e = EGL_NO_DISPLAY \<Longrightarrow> DestroyWideColorCtx (e, h) = (e, h)"
  by (simp add: DestroyWideColorCtx_def)

lemma destroy_open:
  "display e \<noteq> EGL_NO_DISPLAY \<Longrightarrow>
   DestroyWideColorCtx (e, h) =
     (\<lparr>display = EGL_NO_DISPLAY, surface = EGL_NO_SURFACE, eglContext = EGL_NO_CONTEXT,
       dispColorSpace = INVALID, dispFormat = INVALID_FORMAT,
       renderTargetWidth = renderTargetWidth e, renderTargetHeight = renderTargetHeight e\<rparr>,
      h @ [EglMakeCurrent (display e) EGL_NO_SURFACE EGL_NO_SURFACE EGL_NO_CONTEXT]
        @ (if eglContext e \<noteq> EGL_NO_CONTEXT then [EglDestroyContext (display e) (eglContext e)] else [])
        @ (if surface e \<noteq> EGL_NO_SURFACE then [EglDestroySurface (display e) (surface e)] else [])
        @ [EglTerminate (display e)])"
  by (cases e) (simp add: DestroyWideColorCtx_def Let_def)

text \<open>
  C4, as amended. \<open>DestroyWideColorCtx\<close> is idempotent. With the display at its
  closed sentinel it changes nothing. Otherwise it issues the release of the
  current binding, destroys the context and the surface when the engine holds
  them, terminates the display, and leaves the display, the context, the
  surface, the colour space and the format at their sentinels, while the width
  and the height of the render target stay as they were.
\<close>

theorem DestroyWideColorCtx_idempotent:
  "DestroyWideColorCtx (DestroyWideColorCtx (e, h)) = DestroyWideColorCtx (e, h)
   \<and> (display e = EGL_NO_DISPLAY \<longrightarrow> DestroyWideColorCtx (e, h) = (e, h))
   \<and> (display e \<noteq> EGL_NO_DISPLAY \<longrightarrow>
        DestroyWideColorCtx (e, h) =
          (\<lparr>display = EGL_NO_DISPLAY, surface = EGL_NO_SURFACE, eglContext = EGL_NO_CONTEXT,
            dispColorSpace = INVALID, dispFormat = INVALID_FORMAT,
            renderTargetWidth = renderTargetWidth e, renderTargetHeight = renderTargetHeight e\<rparr>,
           h @ [EglMakeCurrent (display e) EGL_NO_SURFACE EGL_NO_SURFACE EGL_NO_CONTEXT]
             @ (if eglContext e \<noteq> EGL_NO_CONTEXT
                then [EglDestroyContext (display e) (eglContext e)] else [])
             @ (if surface e \<noteq> EGL_NO_SURFACE
                then [EglDestroySurface (display e) (surface e)] else [])
             @ [EglTerminate (display e)]))"
proof (cases "display e = EGL_NO_DISPLAY")
  case True
  then show ?thesis
    by (simp add: destroy_closed)
next
  case False
  then show ?thesis
    by (simp add: destroy_open destroy_closed)
qed

theorem DestroyWideColorCtx_idempotent_witness:
  "display (ready_engine 1080 1920) \<noteq> EGL_NO_DISPLAY
   \<and> DestroyWideColorCtx (ready_engine 1080 1920, []) =
       (uninitialized_engine\<lparr>renderTargetWidth := 1080, renderTargetHeight := 1920\<rparr>,
        [EglMakeCurrent (Display 1) EGL_NO_SURFACE EGL_NO_SURFACE EGL_NO_CONTEXT,
         EglDestroyContext (Display 1) (Context 1),
         EglDestroySurface (Display 1) (Surface 1),
         EglTerminate (Display 1)])
   \<and> DestroyWideColorCtx (DestroyWideColorCtx (ready_engine 1080 1920, []))
       = DestroyWideColorCtx (ready_engine 1080 1920, [])
   \<and> display uninitialized_engine = EGL_NO_DISPLAY
   \<and> DestroyWideColorCtx (uninitialized_engine, []) = (uninitialized_engine, [])"
proof -
  note ready = DestroyWideColorCtx_idempotent [of "ready_engine 1080 1920" "[]"]
  note idle = DestroyWideColorCtx_idempotent [of uninitialized_engine "[]"]
  have opened: "display (ready_engine 1080 1920) \<noteq> EGL_NO_DISPLAY"
    by (simp add: ready_engine_def)
  have closed: "display uninitialized_engine = EGL_NO_DISPLAY"
    by (simp add: uninitialized_engine_def)
  have twice: "DestroyWideColorCtx (DestroyWideColorCtx (ready_engine 1080 1920, []))
       = DestroyWideColorCtx (ready_engine 1080 1920, [])"
    by (rule ready [THEN conjunct1])
  have reset: "DestroyWideColorCtx (ready_engine 1080 1920, []) =
       (uninitialized_engine\<lparr>renderTargetWidth := 1080, renderTargetHeight := 1920\<rparr>,
        [EglMakeCurrent (Display 1) EGL_NO_SURFACE EGL_NO_SURFACE EGL_NO_CONTEXT,
         EglDestroyContext (Display 1) (Context 1),
         EglDestroySurface (Display 1) (Surface 1),
         EglTerminate (Display 1)])"
    unfolding ready [THEN conjunct2, THEN conjunct2, rule_format, OF opened]
    by (simp add: ready_engine_def uninitialized_engine_def)
  have noop: "DestroyWideColorCtx (uninitialized_engine, []) = (uninitialized_engine, [])"
    by (rule idle [THEN conjunct2, THEN conjunct1, rule_format, OF closed])
  from opened reset twice closed noop show ?thesis
    by (intro conjI)
qed

text \<open>
  C4, as stated, fails: the claim lists the width and the height of the render
  target among the fields that are reset, but both survive the tear-down, so
  two engines torn down from different sizes end in different states.
\<close>

theorem destroy_keeps_render_target_size:
  "renderTargetWidth (fst (DestroyWideColorCtx (ready_engine 1080 1920, []))) = 1080
   \<and> renderTargetHeight (fst (DestroyWideColorCtx (ready_engine 1080 1920, []))) = 1920
   \<and> renderTargetWidth (fst (DestroyWideColorCtx (ready_engine 720 1280, []))) = 720
   \<and> renderTargetHeight (fst (DestroyWideColorCtx (ready_engine 720 1280, []))) = 1280
   \<and> fst (DestroyWideColorCtx (ready_engine 1080 1920, [])) \<noteq> uninitialized_engine"
  by (simp add: DestroyWideColorCtx_def Let_def ready_engine_def uninitialized_engine_def)

subsection \<open>The invariant of the handles\<close>

lemma attempt_outcome:
  assumes "eglContext e = EGL_NO_CONTEXT" and "surface e = EGL_NO_SURFACE"
    and "CreateWideColorCtx_mode p mode (e, h) = Inr (ok, e', h')"
  shows "if ok then eglContext e' \<noteq> EGL_NO_CONTEXT \<and> surface e' \<noteq> EGL_NO_SURFACE else e' = e"
  using assms
  unfolding CreateWideColorCtx_mode_def Let_def
  by (auto split: sum.splits prod.splits if_splits option.splits
      simp: restore_context restore_surface)

lemma try_modes_outcome:
  assumes "eglContext e = EGL_NO_CONTEXT" and "surface e = EGL_NO_SURFACE"
    and "try_modes p modes (e, h) = Inr (ok, e', h')"
  shows "if ok then eglContext e' \<noteq> EGL_NO_CONTEXT \<and> surface e' \<noteq> EGL_NO_SURFACE else e' = e"
  using assms
proof (induction modes arbitrary: h)
  case Nil
  then show ?case by auto
next
  case (Cons m modes)
  show ?case
  proof (cases "CreateWideColorCtx_mode p m (e, h)")
    case (Inl f)
    with Cons.prems show ?thesis by simp
  next
    case (Inr r)
    obtain ok1 e1 h1 where r: "r = (ok1, e1, h1)" by (cases r)
    have first: "if ok1 then eglContext e1 \<noteq> EGL_NO_CONTEXT \<and> surface e1 \<noteq> EGL_NO_SURFACE else e1 = e"
      using attempt_outcome [OF Cons.prems(1,2)] Inr r by simp
    show ?thesis
    proof (cases ok1)
      case True
      with Inr r Cons.prems(3) first show ?thesis by auto
    next
      case False
      with first have "e1 = e" by simp
      with Inr r False Cons.prems(3) have "try_modes p modes (e, h1) = Inr (ok, e', h')" by simp
      then show ?thesis
        by (rule Cons.IH [OF Cons.prems(1,2)])
    qed
  qed
qed

lemma best_effort_outcome:
  assumes "eglContext e = EGL_NO_CONTEXT" and "surface e = EGL_NO_SURFACE"
    and "CreateWideColorCtx p (e, h) = Inr (ok, e', h')"
  shows "if ok then eglContext e' \<noteq> EGL_NO_CONTEXT \<and> surface e' \<noteq> EGL_NO_SURFACE
         else e' = e\<lparr>display := ansGetDisplay p h\<rparr>"
proof -
  let ?e = "e\<lparr>display := ansGetDisplay p h\<rparr>"
  have c: "eglContext ?e = EGL_NO_CONTEXT" and s: "surface ?e = EGL_NO_SURFACE"
    using assms(1,2) by simp_all
  from assms(3) obtain chain s0 where
    sel: "SelectFallbackChain p (OpenDisplay p (e, h)) = Inr (chain, s0)"
    and run: "try_modes p (attempted chain) s0 = Inr (ok, e', h')"
    unfolding CreateWideColorCtx_as_loop
    by (auto split: sum.splits)
  obtain h0 where "s0 = (?e, h0)"
    using selected_chain [OF sel] by (cases s0) simp
  with run show ?thesis
    using try_modes_outcome [OF c s] by blast
qed

lemma destroy_engine:
  "fst (DestroyWideColorCtx (e, h)) =
    (if display e = EGL_NO_DISPLAY then e
     else e\<lparr>display := EGL_NO_DISPLAY, eglContext := EGL_NO_CONTEXT, surface := EGL_NO_SURFACE,
            dispColorSpace := INVALID, dispFormat := INVALID_FORMAT\<rparr>)"
  by (simp add: DestroyWideColorCtx_def Let_def)

text \<open>
  C5, as amended. In every state reached from the constructed engine by
  \<open>CreateWideColorCtx\<close>, \<open>CreateWideColorCtx_mode\<close> and \<open>DestroyWideColorCtx\<close>,
  where a creation is entered only while the engine holds neither a context nor
  a surface, the context and the surface are both at their sentinels or both
  valid, and the colour space and the format are \<open>INVALID\<close> whenever the surface
  is at its sentinel.
\<close>

theorem reachable_handles_paired:
  assumes "reachable p s"
  shows "handles_paired (fst s) \<and> format_needs_surface (fst s)"
  using assms
proof (induction rule: reachable.induct)
  case constructed
  show ?case
    by (simp add: handles_paired_def format_needs_surface_def uninitialized_engine_def)
next
  case (best_effort e h ok s')
  obtain e' h' where s': "s' = (e', h')" by (cases s')
  have "if ok then eglContext e' \<noteq> EGL_NO_CONTEXT \<and> surface e' \<noteq> EGL_NO_SURFACE
        else e' = e\<lparr>display := ansGetDisplay p h\<rparr>"
    using best_effort.hyps(2,3,4) unfolding s' by (rule best_effort_outcome)
  then show ?case
    using best_effort.IH best_effort.hyps(2,3)
    by (cases ok) (simp_all add: s' handles_paired_def format_needs_surface_def)
next
  case (single_mode e h mode ok s')
  obtain e' h' where s': "s' = (e', h')" by (cases s')
  have "if ok then eglContext e' \<noteq> EGL_NO_CONTEXT \<and> surface e' \<noteq> EGL_NO_SURFACE else e' = e"
    using single_mode.hyps(2,3,4) unfolding s' by (rule attempt_outcome)
  then show ?case
    using single_mode.IH
    by (cases ok) (simp_all add: s' handles_paired_def format_needs_surface_def)
next
  case (destroyed s)
  obtain e h where s: "s = (e, h)" by (cases s)
  show ?case
    using destroyed.IH unfolding s destroy_engine
    by (simp add: handles_paired_def format_needs_surface_def)
qed

theorem reachable_handles_paired_witness:
  "\<exists>s. reachable willing_platform s \<and> eglContext (fst s) = Context 1 \<and> surface (fst s) = Surface 1
     \<and> handles_paired (fst s) \<and> format_needs_surface (fst s)"
proof -
  have "case CreateWideColorCtx willing_platform (uninitialized_engine, []) of
          Inl f \<Rightarrow> False
        | Inr (ok, s') \<Rightarrow> ok \<and> eglContext (fst s') = Context 1 \<and> surface (fst s') = Surface 1"
    by code_simp
  then obtain s' where run:
    "CreateWideColorCtx willing_platform (uninitialized_engine, []) = Inr (True, s')"
    and held: "eglContext (fst s') = Context 1" "surface (fst s') = Surface 1"
    by (auto split: sum.splits)
  have start: "eglContext uninitialized_engine = EGL_NO_CONTEXT"
    "surface uninitialized_engine = EGL_NO_SURFACE"
    by (simp_all add: uninitialized_engine_def)
  have r: "reachable willing_platform s'"
    by (rule reachable.best_effort [OF reachable.constructed start run])
  from reachable_handles_paired [OF r] r held show ?thesis
    by blast
qed

text \<open>
  C5, as stated, fails when a creation is entered while a context and a surface
  are held. First run: after a successful negotiation, an attempt on \<open>P3_FP16\<close>
  whose context creation is refused overwrites the context with its sentinel and
  keeps the surface. Second run: a second negotiation on a platform that allows
  one surface per window fails in every mode, overwrites both handles with their
  sentinels and keeps the colour space and the format of the first.
\<close>

theorem unguarded_creation_breaks_pairing:
  "(case CreateWideColorCtx fp16_context_refusing_platform (uninitialized_engine, []) of
      Inr (True, s1) \<Rightarrow>
        (case CreateWideColorCtx_mode fp16_context_refusing_platform P3_FP16 s1 of
           Inr (False, e2, h2) \<Rightarrow>
             eglContext e2 = EGL_NO_CONTEXT \<and> surface e2 = Surface 1 \<and> \<not> handles_paired e2
         | _ \<Rightarrow> False)
    | _ \<Rightarrow> False)
   \<and> (case CreateWideColorCtx one_surface_platform (uninitialized_engine, []) of
      Inr (True, s1) \<Rightarrow>
        (case CreateWideColorCtx one_surface_platform s1 of
           Inr (False, e2, h2) \<Rightarrow>
             surface e2 = EGL_NO_SURFACE \<and> dispColorSpace e2 = P3 \<and> dispFormat e2 = R8G8B8A8_REV
             \<and> \<not> format_needs_surface e2
         | _ \<Rightarrow> False)
    | _ \<Rightarrow> False)"
  by code_simp

subsection \<open>Further properties of the code\<close>

text \<open>
  For a gamma below one, \<open>CreateGammaEncodeTable\<close> returns exactly 256 entries
  whatever the output vector held before.
\<close>

theorem encode_table_has_256_entries:
  assumes "flt_less gamma lit_1_0f"
  shows "\<exists>t. CreateGammaEncodeTable lm gamma table = Inr t \<and> length t = 256"
  using assms by (simp add: CreateGammaEncodeTable_result del: upt_rec_numeral upt_Suc)

theorem encode_table_has_256_entries_witness:
  "flt_less lit_inv_2_2f lit_1_0f
   \<and> (\<exists>t. CreateGammaEncodeTable coarse_libm lit_inv_2_2f [1, 2, 3] = Inr t \<and> length t = 256)"
  using encode_table_has_256_entries [OF gamma_inv_2_2_below_one, of coarse_libm "[1, 2, 3]"]
    gamma_inv_2_2_below_one
  by simp

text \<open>
  For a gamma strictly between 0 and 1 the end values of the encode table are
  the ones the spec names: \<^verbatim>\<open>pow(0, gamma)\<close> is 0, which the power law and the
  clipping take to 0, and \<^verbatim>\<open>pow(1, gamma)\<close> is 1, which they take to 255.
\<close>

lemma positive_mantissa: "flt_less \<lparr>mant = 0, expo = 0\<rparr> x \<longleftrightarrow> 0 < mant x"
  by (simp add: flt_less_def Let_def zero_less_mult_iff)

lemma unit_quotient:
  "\<not> flt_less (f32_div (f32_of_int 255) maxPixelf) lit_1_0f
   \<and> \<not> flt_less lit_1_0f (f32_div (f32_of_int 255) maxPixelf)"
  by code_simp

lemma c_pow_base_one: "c_pow lm prec (f32_div (f32_of_int 255) maxPixelf) y = lit_1_0f"
  by (simp add: c_pow_def unit_quotient)

lemma encode_power_sample_last: "encode_power_sample lm gamma 255 = 255"
  by (cases "pow_float_overload lm")
    (simp_all add: encode_power_sample_def c_pow_base_one
      power_sample_of_one_single power_sample_of_one_double)

lemma zero_quotient: "f32_div (f32_of_int 0) maxPixelf = \<lparr>mant = 0, expo = 0\<rparr>"
  by code_simp

lemma c_pow_base_zero:
  "0 < mant y \<Longrightarrow> c_pow lm prec \<lparr>mant = 0, expo = 0\<rparr> y = \<lparr>mant = 0, expo = 0\<rparr>"
  by (simp add: c_pow_def gamma_zero_below_one)

lemma power_sample_of_zero_single:
  "word_of_int (flt_trunc (CLIP_COLOR_dbl
     (f64_add (f64_mul (f32_sub (f32_mul lit_1_055f \<lparr>mant = 0, expo = 0\<rparr>) lit_0_055f)
        (flt_of_int 255)) lit_0_5f)
     maxPixelf)) = (0 :: uint8_t)"
  by code_simp

lemma power_sample_of_zero_double:
  "word_of_int (flt_trunc (CLIP_COLOR_dbl
     (f64_add (f64_mul (f64_sub (f64_mul lit_1_055f \<lparr>mant = 0, expo = 0\<rparr>) lit_0_055f)
        (flt_of_int 255)) lit_0_5f)
     maxPixelf)) = (0 :: uint8_t)"
  by code_simp

lemma encode_power_sample_first: "0 < mant gamma \<Longrightarrow> encode_power_sample lm gamma 0 = 0"
  by (cases "pow_float_overload lm")
    (simp_all add: encode_power_sample_def zero_quotient c_pow_base_zero
      power_sample_of_zero_single power_sample_of_zero_double)

theorem encode_table_end_values:
  assumes "flt_less \<lparr>mant = 0, expo = 0\<rparr> gamma" and "flt_less gamma lit_1_0f"
  shows "\<exists>t. CreateGammaEncodeTable lm gamma table = Inr t \<and> length t = 256
           \<and> t ! 0 = 0 \<and> t ! 255 = 255"
proof -
  have "map (encode_power_sample lm gamma) [0..<256] ! 0 = encode_power_sample lm gamma 0"
    "map (encode_power_sample lm gamma) [0..<256] ! 255 = encode_power_sample lm gamma 255"
    by (simp_all del: upt_rec_numeral upt_Suc)
  then show ?thesis
    using assms
    by (simp add: CreateGammaEncodeTable_result positive_mantissa encode_power_sample_first
        encode_power_sample_last del: upt_rec_numeral upt_Suc)
qed

theorem encode_table_end_values_witness:
  "flt_less \<lparr>mant = 0, expo = 0\<rparr> lit_inv_2_2f \<and> flt_less lit_inv_2_2f lit_1_0f
   \<and> (\<exists>t. CreateGammaEncodeTable coarse_libm lit_inv_2_2f [] = Inr t \<and> length t = 256
           \<and> t ! 0 = 0 \<and> t ! 255 = 255)"
proof -
  have positive: "flt_less \<lparr>mant = 0, expo = 0\<rparr> lit_inv_2_2f"
    by code_simp
  from encode_table_end_values [OF positive gamma_inv_2_2_below_one, of coarse_libm "[]"]
    positive gamma_inv_2_2_below_one
  show ?thesis
    by (intro conjI)
qed

text \<open>
  For a gamma above one, \<open>CreateGammaDecodeTable\<close> returns the prior contents of
  the output vector followed by exactly 256 new entries.
\<close>

theorem decode_table_appends_256_entries:
  assumes "flt_less lit_1_0f gamma"
  shows "\<exists>t. CreateGammaDecodeTable lm gamma table = Inr (table @ t) \<and> length t = 256"
  using assms by (simp add: CreateGammaDecodeTable_result del: upt_rec_numeral upt_Suc)

theorem decode_table_appends_256_entries_witness:
  "flt_less lit_1_0f lit_2_2f
   \<and> (\<exists>t. CreateGammaDecodeTable coarse_libm lit_2_2f [1, 2, 3] = Inr ([1, 2, 3] @ t)
         \<and> length t = 256)"
  using decode_table_appends_256_entries [OF gamma_2_2_above_one, of coarse_libm "[1, 2, 3]"]
    gamma_2_2_above_one
  by simp

text \<open>
  An attempt that returns \<open>true\<close> has matched a configuration and leaves the
  engine with the colour space and the format of \<open>appWideColorCfg[mode]\<close>, the
  display it was given, and a context and a surface that this attempt created
  and that are live.
\<close>

theorem successful_attempt_records_mode:
  assumes "CreateWideColorCtx_mode p mode (e, h) = Inr (True, e', h')"
  shows "dispColorSpace e' = app_space (appCfg mode) \<and> dispFormat e' = app_fmt (appCfg mode)
    \<and> display e' = display e
    \<and> eglContext e' \<noteq> EGL_NO_CONTEXT \<and> surface e' \<noteq> EGL_NO_SURFACE
    \<and> live_contexts h' = eglContext e' # live_contexts h
    \<and> live_surfaces h' = surface e' # live_surfaces h
    \<and> config_matches p mode (e, h)"
  using assms
  unfolding CreateWideColorCtx_mode_def config_matches_def Let_def
  by (auto split: sum.splits prod.splits if_splits option.splits
      simp: live_contexts_append live_surfaces_append)

theorem successful_attempt_records_mode_witness:
  "\<exists>h'. CreateWideColorCtx_mode willing_platform P3_R10G10B10A2_REV (opened_engine, []) =
      Inr (True,
           \<lparr>display = Display 1, surface = Surface 1, eglContext = Context 1,
            dispColorSpace = P3, dispFormat = R10G10B10_A2_REV,
            renderTargetWidth = 1080, renderTargetHeight = 1920\<rparr>, h')
     \<and> live_contexts h' = [Context 1] \<and> live_surfaces h' = [Surface 1]"
proof -
  have "case CreateWideColorCtx_mode willing_platform P3_R10G10B10A2_REV (opened_engine, []) of
          Inl f \<Rightarrow> False
        | Inr (ok, e', h') \<Rightarrow> ok \<and> e' =
           \<lparr>display = Display 1, surface = Surface 1, eglContext = Context 1,
            dispColorSpace = P3, dispFormat = R10G10B10_A2_REV,
            renderTargetWidth = 1080, renderTargetHeight = 1920\<rparr>"
    by code_simp
  then obtain h' where run:
    "CreateWideColorCtx_mode willing_platform P3_R10G10B10A2_REV (opened_engine, []) =
      Inr (True,
           \<lparr>display = Display 1, surface = Surface 1, eglContext = Context 1,
            dispColorSpace = P3, dispFormat = R10G10B10_A2_REV,
            renderTargetWidth = 1080, renderTargetHeight = 1920\<rparr>, h')"
    by (auto split: sum.splits)
  from successful_attempt_records_mode [OF run] run show ?thesis
    by (auto simp: live_contexts_def live_surfaces_def)
qed

text \<open>
  The end-to-end scenario of the spec: on a platform that supports only the
  legacy configuration the negotiation succeeds with the colour space \<open>SRGB\<close>
  and the format \<open>R8G8B8A8_REV\<close>, and the tear-down afterwards leaves no
  context and no surface behind.
\<close>

theorem legacy_only_platform_end_to_end:
  "(case CreateWideColorCtx legacy_only_platform (uninitialized_engine, []) of
      Inr (True, e1, h1) \<Rightarrow>
        dispColorSpace e1 = SRGB \<and> dispFormat e1 = R8G8B8A8_REV
        \<and> eglContext e1 = Context 1 \<and> surface e1 = Surface 1
        \<and> live_contexts h1 = [Context 1] \<and> live_surfaces h1 = [Surface 1]
        \<and> (case DestroyWideColorCtx (e1, h1) of
              (e2, h2) \<Rightarrow>
                e2 = uninitialized_engine\<lparr>renderTargetWidth := 1080, renderTargetHeight := 1920\<rparr>
                \<and> live_contexts h2 = [] \<and> live_surfaces h2 = [])
    | _ \<Rightarrow> False)"
  by code_simp

end
